theory Spec2Isabelle
  imports Complex_Main
begin

section \<open>Python values used by the application\<close>

subsection \<open>Floats\<close>

text \<open>
  A Python \<^verbatim>\<open>float\<close> is an IEEE-754 binary64 value. A finite one is modelled by the
  rational number it denotes; the two infinities and NaN are separate values.
\<close>

datatype pyfloat = Finite rat | PosInf | NegInf | NaN

text \<open>\<open>ilog2 n\<close> is the position of the leading bit of \<open>n\<close> (for \<open>1 \<le> n\<close>).\<close>

function ilog2 :: "int \<Rightarrow> int" where
  "ilog2 n = (if n < 2 then 0 else 1 + ilog2 (n div 2))"
  by pat_completeness auto
termination
  by (relation "measure nat") auto

declare ilog2.simps [simp del]

text \<open>For \<open>0 < x\<close>, \<open>binade x\<close> is the exponent \<open>e\<close> with \<open>2^e \<le> x < 2^(e+1)\<close>.\<close>

definition binade :: "rat \<Rightarrow> int" where
  "binade x = (if 1 \<le> x then ilog2 \<lfloor>x\<rfloor> else - (1 + ilog2 (\<lceil>1 / x\<rceil> - 1)))"

definition two_pow :: "int \<Rightarrow> rat" where
  "two_pow e = (if 0 \<le> e then 2 ^ nat e else 1 / 2 ^ nat (- e))"

text \<open>Nearest integer, a tie going to the even neighbour.\<close>

definition rne :: "rat \<Rightarrow> int" where
  "rne y = (let f = \<lfloor>y\<rfloor>; r = y - of_int f in
            if r < 1 / 2 then f
            else if 1 / 2 < r then f + 1
            else if even f then f else f + 1)"

text \<open>
  \<open>fl x\<close> is the double nearest to \<open>x\<close> (53 significant bits, ties to even), for \<open>x\<close> in
  the range of normal doubles. It is what a decimal literal such as \<^verbatim>\<open>0.3\<close> denotes and
  what every arithmetic operation rounds its exact result to.
\<close>

definition fl :: "rat \<Rightarrow> rat" where
  "fl x = (if x = 0 then 0
           else let a = \<bar>x\<bar>; u = two_pow (binade a - 52)
                in sgn x * of_int (rne (a / u)) * u)"

text \<open>Float addition of two finite doubles (no overflow arises in this program).\<close>

definition fadd :: "rat \<Rightarrow> rat \<Rightarrow> rat" where
  "fadd a b = fl (a + b)"

text \<open>Comparison of a Python \<^verbatim>\<open>int\<close> with a float is exact; with NaN it is false.\<close>

fun int_le_float :: "int \<Rightarrow> pyfloat \<Rightarrow> bool" where
  "int_le_float n (Finite q) = (of_int n \<le> q)"
| "int_le_float n PosInf = True"
| "int_le_float n NegInf = False"
| "int_le_float n NaN = False"

fun float_le_int :: "pyfloat \<Rightarrow> int \<Rightarrow> bool" where
  "float_le_int (Finite q) n = (q \<le> of_int n)"
| "float_le_int PosInf n = False"
| "float_le_int NegInf n = True"
| "float_le_int NaN n = False"

text \<open>\<^verbatim>\<open>round(x, 2)\<close>: the exact value is rounded to two decimals (ties to even) and the
  result is the double nearest to that decimal; infinities and NaN are returned as they are.\<close>

fun round2 :: "pyfloat \<Rightarrow> pyfloat" where
  "round2 (Finite q) = Finite (fl (of_int (rne (q * 100)) / 100))"
| "round2 x = x"

text \<open>\<^verbatim>\<open>int(x)\<close> truncates towards zero; it raises on NaN and on the infinities.\<close>

definition trunc :: "rat \<Rightarrow> int" where
  "trunc q = (if 0 \<le> q then \<lfloor>q\<rfloor> else \<lceil>q\<rceil>)"

subsection \<open>Strings\<close>

text \<open>
  A Python \<^verbatim>\<open>str\<close> is modelled by the byte string of its UTF-8 encoding, so a letter
  outside ASCII is written as its two bytes.
\<close>

section \<open>Request and response models (models.py)\<close>

datatype HeatingType =
    ELEKTRYCZNE
  | GAZOWE
  | INNE
  | KOMINKOWE_GAZOWE
  | KOTLOWNIA
  | MIEJSKIE
  | POMPA_CIEPLA
  | WEGLOWE

fun HeatingType_value :: "HeatingType \<Rightarrow> string" where
  "HeatingType_value ELEKTRYCZNE = ''elektryczne''"
| "HeatingType_value GAZOWE = ''gazowe''"
| "HeatingType_value INNE = ''inne''"
| "HeatingType_value KOMINKOWE_GAZOWE = ''kominkowe'' @ [CHR 0x0A] @ ''gazowe''"
| "HeatingType_value KOTLOWNIA = ''kot'' @ [CHR 0xC5, CHR 0x82] @ ''ownia''"
| "HeatingType_value MIEJSKIE = ''miejskie''"
| "HeatingType_value POMPA_CIEPLA = ''pompa ciep'' @ [CHR 0xC5, CHR 0x82] @ ''a''"
| "HeatingType_value WEGLOWE = ''w'' @ [CHR 0xC4, CHR 0x99] @ ''glowe''"

datatype BuildingMaterialType =
    BETON
  | BETON_KOMOROWY
  | CEGLA
  | DREWNO
  | INNY
  | KERAMZYT
  | PUSTAK
  | SILIKAT
  | WIELKA_PLYTA
  | ZELBET

fun BuildingMaterialType_value :: "BuildingMaterialType \<Rightarrow> string" where
  "BuildingMaterialType_value BETON = ''beton''"
| "BuildingMaterialType_value BETON_KOMOROWY = ''beton kom'' @ [CHR 0xC3, CHR 0xB3] @ ''rkowy''"
| "BuildingMaterialType_value CEGLA = ''ceg'' @ [CHR 0xC5, CHR 0x82] @ ''a''"
| "BuildingMaterialType_value DREWNO = ''drewno''"
| "BuildingMaterialType_value INNY = ''inny''"
| "BuildingMaterialType_value KERAMZYT = ''keramzyt''"
| "BuildingMaterialType_value PUSTAK = ''pustak''"
| "BuildingMaterialType_value SILIKAT = ''silikat''"
| "BuildingMaterialType_value WIELKA_PLYTA = ''wielka p'' @ [CHR 0xC5, CHR 0x82] @ ''yta''"
| "BuildingMaterialType_value ZELBET = [CHR 0xC5, CHR 0xBC] @ ''elbet''"

datatype BuildingType =
    APARTAMENTOWIEC
  | BLIZNIA
  | BLOK
  | DOM_WOLNOSTOJACY
  | KAMIENICA
  | LOFT
  | PLOMBA
  | SZEREGOWIEC
  | WOLNOSTOJACY

fun BuildingType_value :: "BuildingType \<Rightarrow> string" where
  "BuildingType_value APARTAMENTOWIEC = ''apartamentowiec''"
| "BuildingType_value BLIZNIA = ''bli'' @ [CHR 0xC5, CHR 0xBA] @ ''niak''"
| "BuildingType_value BLOK = ''blok''"
| "BuildingType_value DOM_WOLNOSTOJACY = ''dom wolnostoj'' @ [CHR 0xC4, CHR 0x85] @ ''cy''"
| "BuildingType_value KAMIENICA = ''kamienica''"
| "BuildingType_value LOFT = ''loft''"
| "BuildingType_value PLOMBA = ''plomba''"
| "BuildingType_value SZEREGOWIEC = ''szeregowiec''"
| "BuildingType_value WOLNOSTOJACY = ''wolnostoj'' @ [CHR 0xC4, CHR 0x85] @ ''cy''"

datatype MarketType =
    PIERWOTNY
  | WTORNY

fun MarketType_value :: "MarketType \<Rightarrow> string" where
  "MarketType_value PIERWOTNY = ''pierwotny''"
| "MarketType_value WTORNY = ''wt'' @ [CHR 0xC3, CHR 0xB3] @ ''rny''"

datatype Voivodeship =
    DOLNOSLASKIE
  | KUJAWSKO_POMORSKIE
  | LUBELSKIE
  | LUBUSKIE
  | MAZOWIECKIE
  | MALOPOLSKIE
  | OPOLSKIE
  | PODKARPACKIE
  | PODLASKIE
  | POMORSKIE
  | WARMINSKO_MAZURSKIE
  | WIELKOPOLSKIE
  | ZACHODNIOPOMORSKIE
  | LODZKIE
  | SLASKIE
  | SWIETOKRZYSKIE

fun Voivodeship_value :: "Voivodeship \<Rightarrow> string" where
  "Voivodeship_value DOLNOSLASKIE = ''dolno'' @ [CHR 0xC5, CHR 0x9B] @ ''l'' @ [CHR 0xC4, CHR 0x85] @ ''skie''"
| "Voivodeship_value KUJAWSKO_POMORSKIE = ''kujawsko-pomorskie''"
| "Voivodeship_value LUBELSKIE = ''lubelskie''"
| "Voivodeship_value LUBUSKIE = ''lubuskie''"
| "Voivodeship_value MAZOWIECKIE = ''mazowieckie''"
| "Voivodeship_value MALOPOLSKIE = ''ma'' @ [CHR 0xC5, CHR 0x82] @ ''opolskie''"
| "Voivodeship_value OPOLSKIE = ''opolskie''"
| "Voivodeship_value PODKARPACKIE = ''podkarpackie''"
| "Voivodeship_value PODLASKIE = ''podlaskie''"
| "Voivodeship_value POMORSKIE = ''pomorskie''"
| "Voivodeship_value WARMINSKO_MAZURSKIE = ''warmi'' @ [CHR 0xC5, CHR 0x84] @ ''sko-mazurskie''"
| "Voivodeship_value WIELKOPOLSKIE = ''wielkopolskie''"
| "Voivodeship_value ZACHODNIOPOMORSKIE = ''zachodniopomorskie''"
| "Voivodeship_value LODZKIE = [CHR 0xC5, CHR 0x82, CHR 0xC3, CHR 0xB3] @ ''dzkie''"
| "Voivodeship_value SLASKIE = [CHR 0xC5, CHR 0x9B] @ ''l'' @ [CHR 0xC4, CHR 0x85] @ ''skie''"
| "Voivodeship_value SWIETOKRZYSKIE = [CHR 0xC5, CHR 0x9B] @ ''wi'' @ [CHR 0xC4, CHR 0x99] @ ''tokrzyskie''"

record PredictionRequest =
  area :: pyfloat
  rooms :: int
  year_constructed :: int
  heating :: HeatingType
  building_material :: BuildingMaterialType
  building_type :: BuildingType
  market :: MarketType
  voivodeship :: Voivodeship
  city :: "string option"
  district :: "string option"

text \<open>The field constraints of \<^verbatim>\<open>PredictionRequest\<close>: \<^verbatim>\<open>gt=0\<close> on area and rooms,
  \<^verbatim>\<open>ge=1900, le=2025\<close> on the year.\<close>

fun positive :: "pyfloat \<Rightarrow> bool" where
  "positive (Finite q) = (0 < q)"
| "positive PosInf = True"
| "positive NegInf = False"
| "positive NaN = False"

definition valid_request :: "PredictionRequest \<Rightarrow> bool" where
  "valid_request r \<longleftrightarrow>
     positive (area r) \<and> 0 < rooms r \<and> 1900 \<le> year_constructed r \<and> year_constructed r \<le> 2025"

section \<open>Confidence label (main.py, determine\_confidence)\<close>

text \<open>One step \<^verbatim>\<open>if c: confidence_score += w\<close> on the running float score.\<close>

definition add_if :: "bool \<Rightarrow> rat \<Rightarrow> rat \<Rightarrow> rat" where
  "add_if c w s = (if c then fadd s w else s)"

text \<open>The value of \<^verbatim>\<open>confidence_score\<close> after the four rules; the weights are the
  doubles that the literals \<^verbatim>\<open>0.3\<close> and \<^verbatim>\<open>0.2\<close> denote.\<close>

definition confidence_score :: "PredictionRequest \<Rightarrow> pyfloat \<Rightarrow> rat" where
  "confidence_score request prediction =
     add_if (int_le_float 100000 prediction \<and> float_le_int prediction 1500000) (fl (3 / 10))
       (add_if (1960 \<le> year_constructed request \<and> year_constructed request \<le> 2025) (fl (2 / 10))
         (add_if (2 \<le> rooms request \<and> rooms request \<le> 5) (fl (2 / 10))
           (add_if (int_le_float 40 (area request) \<and> float_le_int (area request) 200) (fl (3 / 10))
             0)))"

definition confidence_label :: "rat \<Rightarrow> string" where
  "confidence_label s =
     (if fl (8 / 10) \<le> s then ''High''
      else if fl (5 / 10) \<le> s then ''Medium''
      else ''Low'')"

definition determine_confidence :: "PredictionRequest \<Rightarrow> pyfloat \<Rightarrow> string" where
  "determine_confidence request prediction =
     confidence_label (confidence_score request prediction)"

text \<open>
  The scoring rule as the specification words it, in exact arithmetic: membership of a
  closed interval, the sum of the weights of the satisfied rules, and the two thresholds.
\<close>

definition in_interval :: "int \<Rightarrow> int \<Rightarrow> pyfloat \<Rightarrow> bool" where
  "in_interval lo hi x = (case x of Finite q \<Rightarrow> of_int lo \<le> q \<and> q \<le> of_int hi | _ \<Rightarrow> False)"

definition spec_score :: "PredictionRequest \<Rightarrow> pyfloat \<Rightarrow> rat" where
  "spec_score r p =
     (if in_interval 40 200 (area r) then 3 / 10 else 0)
     + (if 2 \<le> rooms r \<and> rooms r \<le> 5 then 2 / 10 else 0)
     + (if 1960 \<le> year_constructed r \<and> year_constructed r \<le> 2025 then 2 / 10 else 0)
     + (if in_interval 100000 1500000 p then 3 / 10 else 0)"

definition spec_label :: "rat \<Rightarrow> string" where
  "spec_label s = (if 8 / 10 \<le> s then ''High'' else if 5 / 10 \<le> s then ''Medium'' else ''Low'')"


text \<open>The four rules as a function of which of them hold: the float score the code
  accumulates, and the exact sum of the weights.\<close>

definition score_chain :: "bool \<Rightarrow> bool \<Rightarrow> bool \<Rightarrow> bool \<Rightarrow> rat" where
  "score_chain a b c d =
     add_if d (fl (3 / 10)) (add_if c (fl (2 / 10)) (add_if b (fl (2 / 10)) (add_if a (fl (3 / 10)) 0)))"

definition weight_sum :: "bool \<Rightarrow> bool \<Rightarrow> bool \<Rightarrow> bool \<Rightarrow> rat" where
  "weight_sum a b c d =
     (if a then 3 / 10 else 0) + (if b then 2 / 10 else 0) + (if c then 2 / 10 else 0)
     + (if d then 3 / 10 else 0)"

section \<open>Exceptions\<close>

text \<open>
  The exceptions that the modelled code raises or lets through. \<open>KeyError\<close> carries the
  missing labels. \<open>HTTPException\<close> is itself an \<^verbatim>\<open>Exception\<close>; its detail is either a
  fixed text or the f-string \<^verbatim>\<open>f"<prefix>{str(e)}"\<close> built from a caught exception.
\<close>

datatype exn =
    FileNotFoundError string
  | KeyError "string list"
  | ValueError
  | OverflowError
  | AttributeError
  | TypeError
  | OtherError string
  | HTTPException nat detail
and detail =
    Text string
  | Formatted string exn

section \<open>Artifacts and their cache (config.py)\<close>

datatype pyvalue = PyFloat pyfloat | PyInt int | PyStr string

text \<open>
  The three stored pieces. The regressor is an opaque function from a feature row to a
  price (\<^verbatim>\<open>model.predict(X)[0]\<close>), which may raise. A label encoder maps the labels it
  was fitted on to their codes; \<^verbatim>\<open>transform\<close> raises \<^verbatim>\<open>ValueError\<close> on any other label.
\<close>

type_synonym regressor = "pyvalue list \<Rightarrow> exn + pyfloat"
type_synonym encoder = "string \<rightharpoonup> int"
type_synonym encoders = "string \<rightharpoonup> encoder"

text \<open>The model directory. The three paths are resolved from the location of the
  installed package, so they are given as text (\<^verbatim>\<open>str(MODEL_PATH)\<close> and so on); for each
  path the object stored there is given, \<open>None\<close> when the file does not exist. A stored
  object is never Python's \<^verbatim>\<open>None\<close>.\<close>

record storage =
  MODEL_PATH :: string
  ENCODERS_PATH :: string
  FEATURES_PATH :: string
  model_file :: "regressor option"
  encoders_file :: "encoders option"
  features_file :: "string list option"

definition load_model :: "storage \<Rightarrow> exn + regressor" where
  "load_model disk =
     (case model_file disk of
        None \<Rightarrow> Inl (FileNotFoundError (''Model file not found at '' @ MODEL_PATH disk))
      | Some m \<Rightarrow> Inr m)"

definition load_encoders :: "storage \<Rightarrow> exn + encoders" where
  "load_encoders disk =
     (case encoders_file disk of
        None \<Rightarrow> Inl (FileNotFoundError (''Encoders file not found at '' @ ENCODERS_PATH disk))
      | Some e \<Rightarrow> Inr e)"

definition load_features :: "storage \<Rightarrow> exn + string list" where
  "load_features disk =
     (case features_file disk of
        None \<Rightarrow> Inl (FileNotFoundError (''Features file not found at '' @ FEATURES_PATH disk))
      | Some f \<Rightarrow> Inr f)"

text \<open>The module globals \<^verbatim>\<open>_model\<close>, \<^verbatim>\<open>_encoders\<close>, \<^verbatim>\<open>_features\<close>; \<open>None\<close> is Python's
  \<^verbatim>\<open>None\<close>.\<close>

record cache =
  cached_model :: "regressor option"
  cached_encoders :: "encoders option"
  cached_features :: "string list option"

definition empty_cache :: cache where
  "empty_cache = \<lparr>cached_model = None, cached_encoders = None, cached_features = None\<rparr>"

definition get_model :: "storage \<Rightarrow> cache \<Rightarrow> (exn + regressor) \<times> cache" where
  "get_model disk c =
     (case cached_model c of
        Some m \<Rightarrow> (Inr m, c)
      | None \<Rightarrow>
          (case load_model disk of
             Inl e \<Rightarrow> (Inl e, c)
           | Inr m \<Rightarrow> (Inr m, c\<lparr>cached_model := Some m\<rparr>)))"

definition get_encoders :: "storage \<Rightarrow> cache \<Rightarrow> (exn + encoders) \<times> cache" where
  "get_encoders disk c =
     (case cached_encoders c of
        Some e \<Rightarrow> (Inr e, c)
      | None \<Rightarrow>
          (case load_encoders disk of
             Inl x \<Rightarrow> (Inl x, c)
           | Inr e \<Rightarrow> (Inr e, c\<lparr>cached_encoders := Some e\<rparr>)))"

definition get_features :: "storage \<Rightarrow> cache \<Rightarrow> (exn + string list) \<times> cache" where
  "get_features disk c =
     (case cached_features c of
        Some f \<Rightarrow> (Inr f, c)
      | None \<Rightarrow>
          (case load_features disk of
             Inl x \<Rightarrow> (Inl x, c)
           | Inr f \<Rightarrow> (Inr f, c\<lparr>cached_features := Some f\<rparr>)))"

text \<open>The three pieces fetched in source order; the first exception ends the sequence.
  Both \<^verbatim>\<open>startup_event\<close> and \<^verbatim>\<open>predict_price\<close> begin with it.\<close>

definition get_artifacts ::
  "storage \<Rightarrow> cache \<Rightarrow> (exn + regressor \<times> encoders \<times> string list) \<times> cache" where
  "get_artifacts disk c =
     (case get_model disk c of
        (Inl e, c1) \<Rightarrow> (Inl e, c1)
      | (Inr model, c1) \<Rightarrow>
          (case get_encoders disk c1 of
             (Inl e, c2) \<Rightarrow> (Inl e, c2)
           | (Inr encoders, c2) \<Rightarrow>
               (case get_features disk c2 of
                  (Inl e, c3) \<Rightarrow> (Inl e, c3)
                | (Inr features, c3) \<Rightarrow> (Inr (model, encoders, features), c3))))"

text \<open>\<^verbatim>\<open>startup_event\<close> (main.py): the handler prints and re-raises, so a failed load
  leaves the application unstarted.\<close>

definition startup_event :: "storage \<Rightarrow> cache \<Rightarrow> (exn + unit) \<times> cache" where
  "startup_event disk c =
     (case get_artifacts disk c of
        (Inl e, c') \<Rightarrow> (Inl e, c')
      | (Inr _, c') \<Rightarrow> (Inr (), c'))"

text \<open>\<^verbatim>\<open>MODEL_METADATA["features_used"]\<close>.\<close>

definition features_used :: "string list" where
  "features_used =
     [''Area (m'' @ [CHR 0xC2, CHR 0xB2] @ '')'', ''Number of rooms'', ''year_const'', ''Heating'',
      ''Building material'', ''Building type'', ''Market'', ''voivodeship'', ''city'']"

text \<open>\<open>keeps c c'\<close>: every piece cached in \<open>c\<close> is still cached, unchanged, in \<open>c'\<close>.\<close>

definition keeps :: "cache \<Rightarrow> cache \<Rightarrow> bool" where
  "keeps c c' \<longleftrightarrow>
     (cached_model c = None \<or> cached_model c' = cached_model c)
     \<and> (cached_encoders c = None \<or> cached_encoders c' = cached_encoders c)
     \<and> (cached_features c = None \<or> cached_features c' = cached_features c)"

section \<open>Feature encoding (main.py, predict\_price, lines 122--141)\<close>

definition feature_dict :: "PredictionRequest \<Rightarrow> (string \<times> pyvalue) list" where
  "feature_dict request =
     [(''Area (m'' @ [CHR 0xC2, CHR 0xB2] @ '')'', PyFloat (area request)),
      (''Number of rooms'', PyInt (rooms request)),
      (''year_const'', PyInt (year_constructed request)),
      (''Heating'', PyStr (HeatingType_value (heating request))),
      (''Building material'', PyStr (BuildingMaterialType_value (building_material request))),
      (''Building type'', PyStr (BuildingType_value (building_type request))),
      (''Market'', PyStr (MarketType_value (market request))),
      (''voivodeship'', PyStr (Voivodeship_value (voivodeship request)))]"

definition categorical_columns :: "string list" where
  "categorical_columns =
     [''Heating'', ''Building material'', ''Building type'', ''Market'', ''voivodeship'']"

text \<open>The one-row frame \<open>X\<close> is a map from column name to the value in that row.
  \<^verbatim>\<open>if col in encoders: X[col] = encoders[col].transform(X[col])\<close>.\<close>

definition encode_column ::
  "encoders \<Rightarrow> string \<Rightarrow> (string \<rightharpoonup> pyvalue) \<Rightarrow> exn + (string \<rightharpoonup> pyvalue)" where
  "encode_column encoders col X =
     (case encoders col of
        None \<Rightarrow> Inr X
      | Some enc \<Rightarrow>
          (case X col of
             None \<Rightarrow> Inl (KeyError [col])
           | Some (PyStr label) \<Rightarrow>
               (case enc label of
                  None \<Rightarrow> Inl ValueError
                | Some code \<Rightarrow> Inr (X(col \<mapsto> PyInt code)))
           | Some _ \<Rightarrow> Inl ValueError))"

fun encode_columns ::
  "encoders \<Rightarrow> string list \<Rightarrow> (string \<rightharpoonup> pyvalue) \<Rightarrow> exn + (string \<rightharpoonup> pyvalue)" where
  "encode_columns encoders [] X = Inr X"
| "encode_columns encoders (col # cols) X =
     (case encode_column encoders col X of
        Inl e \<Rightarrow> Inl e
      | Inr X' \<Rightarrow> encode_columns encoders cols X')"

text \<open>\<^verbatim>\<open>X = X[features]\<close>: the columns in the order of the list, \<^verbatim>\<open>KeyError\<close> naming the
  labels that are not columns of \<open>X\<close>.\<close>

definition reorder :: "(string \<rightharpoonup> pyvalue) \<Rightarrow> string list \<Rightarrow> exn + pyvalue list" where
  "reorder X features =
     (case those (map X features) of
        None \<Rightarrow> Inl (KeyError (filter (\<lambda>f. X f = None) features))
      | Some row \<Rightarrow> Inr row)"

definition encode :: "PredictionRequest \<Rightarrow> encoders \<Rightarrow> string list \<Rightarrow> exn + pyvalue list" where
  "encode request encoders features =
     (case encode_columns encoders categorical_columns (map_of (feature_dict request)) of
        Inl e \<Rightarrow> Inl e
      | Inr X \<Rightarrow> reorder X features)"


text \<open>
  The named feature mapping as the specification describes it: area, rooms and year under
  their column names, and each categorical value under its column name, replaced by its
  code when the artifact has an encoder for the column. \<open>None\<close> stands for a name that is
  not a feature, and for a label its encoder does not know.
\<close>

definition feature_names :: "string list" where
  "feature_names =
     [''Area (m'' @ [CHR 0xC2, CHR 0xB2] @ '')'', ''Number of rooms'', ''year_const'', ''Heating'',
      ''Building material'', ''Building type'', ''Market'', ''voivodeship'']"

definition categorical_value :: "encoders \<Rightarrow> string \<Rightarrow> string \<Rightarrow> pyvalue option" where
  "categorical_value encoders col label =
     (case encoders col of
        None \<Rightarrow> Some (PyStr label)
      | Some enc \<Rightarrow> map_option PyInt (enc label))"

definition feature_value :: "PredictionRequest \<Rightarrow> encoders \<Rightarrow> string \<Rightarrow> pyvalue option" where
  "feature_value r encoders name =
     (if name = ''Area (m'' @ [CHR 0xC2, CHR 0xB2] @ '')'' then Some (PyFloat (area r))
      else if name = ''Number of rooms'' then Some (PyInt (rooms r))
      else if name = ''year_const'' then Some (PyInt (year_constructed r))
      else if name = ''Heating''
        then categorical_value encoders name (HeatingType_value (heating r))
      else if name = ''Building material''
        then categorical_value encoders name (BuildingMaterialType_value (building_material r))
      else if name = ''Building type''
        then categorical_value encoders name (BuildingType_value (building_type r))
      else if name = ''Market''
        then categorical_value encoders name (MarketType_value (market r))
      else if name = ''voivodeship''
        then categorical_value encoders name (Voivodeship_value (voivodeship r))
      else None)"

text \<open>What a successful \<open>encode_column\<close> leaves under the column it was called for.\<close>

definition encoded_cell :: "encoders \<Rightarrow> string \<Rightarrow> pyvalue option \<Rightarrow> pyvalue option" where
  "encoded_cell encoders col x =
     (case encoders col of
        None \<Rightarrow> x
      | Some enc \<Rightarrow> (case x of Some (PyStr label) \<Rightarrow> map_option PyInt (enc label) | _ \<Rightarrow> None))"

section \<open>The reference dataset as a data frame\<close>

text \<open>
  What \<^verbatim>\<open>pd.read_csv\<close> returns: for each column its dtype (\<open>None\<close> when the file has no
  such column) and the rows, a row giving the cell under each column name. A cell is a
  string, a number, or missing (NaN). Filtering keeps the dtypes and drops rows.
\<close>

datatype cell = Str string | Num rat | Missing

datatype dtype = ObjectDtype | NumericDtype

record frame =
  dtypes :: "string \<rightharpoonup> dtype"
  rows :: "(string \<Rightarrow> cell) list"

text \<open>The library functions the code calls and this development does not look into:
  \<^verbatim>\<open>str.lower\<close> and \<^verbatim>\<open>Series.mean\<close> (over the numbers present in a column).\<close>

record pylib =
  str_lower :: "string \<Rightarrow> string"
  series_mean :: "rat list \<Rightarrow> pyfloat"

text \<open>Truthiness of an optional string: \<^verbatim>\<open>None\<close> and \<^verbatim>\<open>""\<close> are false. \<open>given\<close> returns
  the string when it is true.\<close>

fun given :: "string option \<Rightarrow> string option" where
  "given None = None"
| "given (Some s) = (if s = [] then None else Some s)"

text \<open>\<^verbatim>\<open>Series.str.lower()\<close> on one cell, and \<^verbatim>\<open>== s\<close> on one cell.\<close>

fun cell_lower :: "pylib \<Rightarrow> cell \<Rightarrow> cell" where
  "cell_lower lib (Str s) = Str (str_lower lib s)"
| "cell_lower lib c = Missing"

fun cell_eq :: "cell \<Rightarrow> string \<Rightarrow> bool" where
  "cell_eq (Str t) s = (t = s)"
| "cell_eq c s = False"

text \<open>\<^verbatim>\<open>df[df[name].str.lower() == s.lower()]\<close>: a missing column is a \<^verbatim>\<open>KeyError\<close>, and
  the \<^verbatim>\<open>.str\<close> accessor raises \<^verbatim>\<open>AttributeError\<close> on a column that is not of string
  dtype.\<close>

definition filter_lower_eq :: "pylib \<Rightarrow> frame \<Rightarrow> string \<Rightarrow> string \<Rightarrow> exn + frame" where
  "filter_lower_eq lib df name s =
     (case dtypes df name of
        None \<Rightarrow> Inl (KeyError [name])
      | Some NumericDtype \<Rightarrow> Inl AttributeError
      | Some ObjectDtype \<Rightarrow>
          Inr (df\<lparr>rows := filter (\<lambda>r. cell_eq (cell_lower lib (r name)) (str_lower lib s)) (rows df)\<rparr>))"

text \<open>\<^verbatim>\<open>df[df[name] == s]\<close>: no row of a numeric column equals a string.\<close>

definition filter_eq :: "frame \<Rightarrow> string \<Rightarrow> string \<Rightarrow> exn + frame" where
  "filter_eq df name s =
     (case dtypes df name of
        None \<Rightarrow> Inl (KeyError [name])
      | Some _ \<Rightarrow> Inr (df\<lparr>rows := filter (\<lambda>r. cell_eq (r name) s) (rows df)\<rparr>))"

text \<open>The numbers present in a column; aggregating a column of strings raises.\<close>

fun number_of :: "cell \<Rightarrow> rat option" where
  "number_of (Num q) = Some q"
| "number_of c = None"

definition present :: "frame \<Rightarrow> string \<Rightarrow> rat list" where
  "present df name = List.map_filter (\<lambda>r. number_of (r name)) (rows df)"

definition numbers :: "frame \<Rightarrow> string \<Rightarrow> exn + rat list" where
  "numbers df name =
     (case dtypes df name of
        None \<Rightarrow> Inl (KeyError [name])
      | Some ObjectDtype \<Rightarrow> Inl TypeError
      | Some NumericDtype \<Rightarrow> Inr (present df name))"

text \<open>\<^verbatim>\<open>Series.min\<close> and \<^verbatim>\<open>Series.max\<close> skip missing cells and give NaN when none is left.\<close>

fun series_min :: "rat list \<Rightarrow> pyfloat" where
  "series_min [] = NaN"
| "series_min (x # xs) = Finite (fold min xs x)"

fun series_max :: "rat list \<Rightarrow> pyfloat" where
  "series_max [] = NaN"
| "series_max (x # xs) = Finite (fold max xs x)"

fun py_int :: "pyfloat \<Rightarrow> exn + int" where
  "py_int (Finite q) = Inr (trunc q)"
| "py_int NaN = Inl ValueError"
| "py_int PosInf = Inl OverflowError"
| "py_int NegInf = Inl OverflowError"

text \<open>\<^verbatim>\<open>round(float(df[name].mean()), 2)\<close> and its siblings.\<close>

definition rounded_mean :: "pylib \<Rightarrow> frame \<Rightarrow> string \<Rightarrow> exn + pyfloat" where
  "rounded_mean lib df name =
     (case numbers df name of Inl e \<Rightarrow> Inl e | Inr xs \<Rightarrow> Inr (round2 (series_mean lib xs)))"

definition rounded_min :: "frame \<Rightarrow> string \<Rightarrow> exn + pyfloat" where
  "rounded_min df name =
     (case numbers df name of Inl e \<Rightarrow> Inl e | Inr xs \<Rightarrow> Inr (round2 (series_min xs)))"

definition rounded_max :: "frame \<Rightarrow> string \<Rightarrow> exn + pyfloat" where
  "rounded_max df name =
     (case numbers df name of Inl e \<Rightarrow> Inl e | Inr xs \<Rightarrow> Inr (round2 (series_max xs)))"

text \<open>\<^verbatim>\<open>int(df['year_const'].mean())\<close>.\<close>

definition int_mean :: "pylib \<Rightarrow> frame \<Rightarrow> string \<Rightarrow> exn + int" where
  "int_mean lib df name =
     (case numbers df name of Inl e \<Rightarrow> Inl e | Inr xs \<Rightarrow> py_int (series_mean lib xs))"

definition col_Price :: string where "col_Price = ''Price''"
definition col_Area :: string where "col_Area = ''Area (m'' @ [CHR 0xC2, CHR 0xB2] @ '')''"
definition col_rooms :: string where "col_rooms = ''Number of rooms''"
definition col_year :: string where "col_year = ''year_const''"

section \<open>Local statistics inside the prediction (main.py, lines 146--175)\<close>

record LocalStats =
  location_city :: "string option"
  location_district :: "string option"
  properties_count :: nat
  avg_price :: pyfloat
  min_price :: pyfloat
  max_price :: pyfloat
  avg_area :: pyfloat
  avg_rooms :: pyfloat
  avg_year :: int

text \<open>\<^verbatim>\<open>if request.city: filtered_df = ...\<close>\<close>

definition city_filter :: "pylib \<Rightarrow> PredictionRequest \<Rightarrow> frame \<Rightarrow> exn + frame" where
  "city_filter lib request df =
     (case given (city request) of
        Some c \<Rightarrow> filter_lower_eq lib df ''city'' c
      | None \<Rightarrow> Inr df)"

text \<open>\<^verbatim>\<open>if request.district and len(filtered_df) > 0: filtered_df = ...\<close>\<close>

definition district_filter :: "pylib \<Rightarrow> PredictionRequest \<Rightarrow> frame \<Rightarrow> exn + frame" where
  "district_filter lib request df =
     (case given (district request) of
        Some d \<Rightarrow> if 0 < length (rows df) then filter_lower_eq lib df ''district'' d else Inr df
      | None \<Rightarrow> Inr df)"

text \<open>The dictionary built when rows remain; its entries are evaluated in source order.\<close>

definition make_local_stats :: "pylib \<Rightarrow> PredictionRequest \<Rightarrow> frame \<Rightarrow> exn + LocalStats" where
  "make_local_stats lib request df =
     (case rounded_mean lib df col_Price of Inl e \<Rightarrow> Inl e | Inr avgp \<Rightarrow>
     (case rounded_min df col_Price of Inl e \<Rightarrow> Inl e | Inr minp \<Rightarrow>
     (case rounded_max df col_Price of Inl e \<Rightarrow> Inl e | Inr maxp \<Rightarrow>
     (case rounded_mean lib df col_Area of Inl e \<Rightarrow> Inl e | Inr avga \<Rightarrow>
     (case rounded_mean lib df col_rooms of Inl e \<Rightarrow> Inl e | Inr avgr \<Rightarrow>
     (case int_mean lib df col_year of Inl e \<Rightarrow> Inl e | Inr avgy \<Rightarrow>
        Inr \<lparr>location_city = city request, location_district = district request,
             properties_count = length (rows df),
             avg_price = avgp, min_price = minp, max_price = maxp,
             avg_area = avga, avg_rooms = avgr, avg_year = avgy\<rparr>))))))"

text \<open>The body of the inner \<^verbatim>\<open>try\<close>; \<open>csv\<close> is what reading the dataset file gives, an
  exception or a frame.\<close>

definition local_stats_try :: "pylib \<Rightarrow> exn + frame \<Rightarrow> PredictionRequest \<Rightarrow> exn + LocalStats option" where
  "local_stats_try lib csv request =
     (case csv of Inl e \<Rightarrow> Inl e | Inr df \<Rightarrow>
     (case city_filter lib request df of Inl e \<Rightarrow> Inl e | Inr by_city \<Rightarrow>
     (case district_filter lib request by_city of Inl e \<Rightarrow> Inl e | Inr filtered_df \<Rightarrow>
        if 0 < length (rows filtered_df)
        then (case make_local_stats lib request filtered_df of
                Inl e \<Rightarrow> Inl e
              | Inr stats \<Rightarrow> Inr (Some stats))
        else Inr None)))"

text \<open>\<^verbatim>\<open>local_stats = None; if request.city or request.district: try: ... except Exception:
  print(...)\<close>: an exception leaves \<^verbatim>\<open>local_stats\<close> at \<^verbatim>\<open>None\<close>.\<close>

definition local_statistics :: "pylib \<Rightarrow> exn + frame \<Rightarrow> PredictionRequest \<Rightarrow> LocalStats option" where
  "local_statistics lib csv request =
     (if given (city request) \<noteq> None \<or> given (district request) \<noteq> None
      then (case local_stats_try lib csv request of Inl e \<Rightarrow> None | Inr stats \<Rightarrow> stats)
      else None)"


section \<open>The prediction endpoint (main.py, predict\_price)\<close>

record PredictionResponse =
  predicted_price :: pyfloat
  currency :: string
  confidence :: string
  input_features :: PredictionRequest
  local_stats :: "LocalStats option"

text \<open>The body of the outer \<^verbatim>\<open>try\<close>, threading the artifact cache.\<close>

definition predict_try ::
  "pylib \<Rightarrow> storage \<Rightarrow> exn + frame \<Rightarrow> PredictionRequest \<Rightarrow> cache
     \<Rightarrow> (exn + PredictionResponse) \<times> cache" where
  "predict_try lib disk csv request c =
     (case get_artifacts disk c of
        (Inl e, c') \<Rightarrow> (Inl e, c')
      | (Inr (model, encoders, features), c') \<Rightarrow>
          (case encode request encoders features of
             Inl e \<Rightarrow> (Inl e, c')
           | Inr X \<Rightarrow>
               (case model X of
                  Inl e \<Rightarrow> (Inl e, c')
                | Inr prediction \<Rightarrow>
                    (Inr \<lparr>predicted_price = round2 prediction,
                          currency = ''PLN'',
                          confidence = determine_confidence request prediction,
                          input_features = request,
                          local_stats = local_statistics lib csv request\<rparr>, c'))))"

text \<open>\<^verbatim>\<open>except Exception as e: raise HTTPException(status_code=400, ...)\<close>\<close>

definition predict_price ::
  "pylib \<Rightarrow> storage \<Rightarrow> exn + frame \<Rightarrow> PredictionRequest \<Rightarrow> cache
     \<Rightarrow> (exn + PredictionResponse) \<times> cache" where
  "predict_price lib disk csv request c =
     (case predict_try lib disk csv request c of
        (Inl e, c') \<Rightarrow> (Inl (HTTPException 400 (Formatted ''Error making prediction: '' e)), c')
      | (Inr response, c') \<Rightarrow> (Inr response, c'))"

section \<open>The filter endpoint (main.py, filter\_properties)\<close>

record FilterStats =
  count :: nat
  filter_avg_price :: pyfloat
  filter_min_price :: pyfloat
  filter_max_price :: pyfloat
  filter_avg_area :: pyfloat
  filter_avg_rooms :: pyfloat
  filters_applied :: "string option \<times> string option \<times> string option"

text \<open>\<^verbatim>\<open>if name_arg: filtered_df = filtered_df[filtered_df[name] == name_arg]\<close>\<close>

definition exact_filter :: "string \<Rightarrow> string option \<Rightarrow> frame \<Rightarrow> exn + frame" where
  "exact_filter name arg df =
     (case given arg of Some s \<Rightarrow> filter_eq df name s | None \<Rightarrow> Inr df)"

text \<open>The three filters in source order.\<close>

definition filtered_by_location ::
  "frame \<Rightarrow> string option \<Rightarrow> string option \<Rightarrow> string option \<Rightarrow> exn + frame" where
  "filtered_by_location df voivodeship_arg city_arg district_arg =
     (case exact_filter ''voivodeship'' voivodeship_arg df of Inl e \<Rightarrow> Inl e | Inr df1 \<Rightarrow>
     (case exact_filter ''city'' city_arg df1 of Inl e \<Rightarrow> Inl e | Inr df2 \<Rightarrow>
        exact_filter ''district'' district_arg df2))"

definition make_filter_stats ::
  "pylib \<Rightarrow> frame \<Rightarrow> string option \<times> string option \<times> string option \<Rightarrow> exn + FilterStats" where
  "make_filter_stats lib df applied =
     (case rounded_mean lib df col_Price of Inl e \<Rightarrow> Inl e | Inr avgp \<Rightarrow>
     (case rounded_min df col_Price of Inl e \<Rightarrow> Inl e | Inr minp \<Rightarrow>
     (case rounded_max df col_Price of Inl e \<Rightarrow> Inl e | Inr maxp \<Rightarrow>
     (case rounded_mean lib df col_Area of Inl e \<Rightarrow> Inl e | Inr avga \<Rightarrow>
     (case rounded_mean lib df col_rooms of Inl e \<Rightarrow> Inl e | Inr avgr \<Rightarrow>
        Inr \<lparr>count = length (rows df),
             filter_avg_price = avgp, filter_min_price = minp, filter_max_price = maxp,
             filter_avg_area = avga, filter_avg_rooms = avgr,
             filters_applied = applied\<rparr>)))))"

definition not_found :: exn where
  "not_found = HTTPException 404 (Text ''No properties found matching the filter criteria'')"

text \<open>The body of the \<^verbatim>\<open>try\<close>, with the \<^verbatim>\<open>raise HTTPException(status_code=404, ...)\<close>
  inside it.\<close>

definition filter_try ::
  "pylib \<Rightarrow> exn + frame \<Rightarrow> string option \<Rightarrow> string option \<Rightarrow> string option \<Rightarrow> exn + FilterStats" where
  "filter_try lib csv voivodeship_arg city_arg district_arg =
     (case csv of Inl e \<Rightarrow> Inl e | Inr df \<Rightarrow>
     (case filtered_by_location df voivodeship_arg city_arg district_arg of
        Inl e \<Rightarrow> Inl e
      | Inr filtered_df \<Rightarrow>
          if length (rows filtered_df) = 0 then Inl not_found
          else make_filter_stats lib filtered_df (voivodeship_arg, city_arg, district_arg)))"

text \<open>\<^verbatim>\<open>except Exception as e: raise HTTPException(status_code=400, ...)\<close>: the handler
  catches every \<^verbatim>\<open>Exception\<close> raised in the body, the 404 above included.\<close>

definition filter_properties ::
  "pylib \<Rightarrow> exn + frame \<Rightarrow> string option \<Rightarrow> string option \<Rightarrow> string option \<Rightarrow> exn + FilterStats" where
  "filter_properties lib csv voivodeship_arg city_arg district_arg =
     (case filter_try lib csv voivodeship_arg city_arg district_arg of
        Inl e \<Rightarrow> Inl (HTTPException 400 (Formatted ''Error filtering properties: '' e))
      | Inr stats \<Rightarrow> Inr stats)"

text \<open>The status code a client sees.\<close>

fun status_code :: "exn + 'a \<Rightarrow> nat" where
  "status_code (Inr x) = 200"
| "status_code (Inl (HTTPException code d)) = code"
| "status_code (Inl e) = 500"


section \<open>Matching a row against a location filter\<close>

text \<open>
  The two ways of matching as the specification words them. An absent (or empty) filter
  value matches every cell. Case-insensitive: the cell is a string whose lower-cased value
  is the lower-cased filter value. Case-sensitive: the cell is exactly the filter value.
\<close>

definition matches_lower :: "pylib \<Rightarrow> string option \<Rightarrow> cell \<Rightarrow> bool" where
  "matches_lower lib arg x =
     (case given arg of
        None \<Rightarrow> True
      | Some s \<Rightarrow> (case x of Str t \<Rightarrow> str_lower lib t = str_lower lib s | _ \<Rightarrow> False))"

definition matches_exactly :: "string option \<Rightarrow> cell \<Rightarrow> bool" where
  "matches_exactly arg x = (case given arg of None \<Rightarrow> True | Some s \<Rightarrow> x = Str s)"

section \<open>Observations on responses\<close>

text \<open>The prediction outcome of a call: the exception, or the price, currency and label
  of the response.\<close>

fun prediction_outcome :: "exn + PredictionResponse \<Rightarrow> exn + pyfloat \<times> string \<times> string" where
  "prediction_outcome (Inl e) = Inl e"
| "prediction_outcome (Inr response) =
     Inr (predicted_price response, currency response, confidence response)"

text \<open>The statistics of a filter response, without the echo of the arguments.\<close>

fun statistics_of ::
  "exn + FilterStats \<Rightarrow> exn + nat \<times> pyfloat \<times> pyfloat \<times> pyfloat \<times> pyfloat \<times> pyfloat" where
  "statistics_of (Inl e) = Inl e"
| "statistics_of (Inr s) =
     Inr (count s, filter_avg_price s, filter_min_price s, filter_max_price s,
          filter_avg_area s, filter_avg_rooms s)"

section \<open>Concrete inputs\<close>

text \<open>An instance of the two library functions for evaluating examples: ASCII lower-casing,
  and the arithmetic mean rounded once (what \<^verbatim>\<open>Series.mean\<close> returns whenever the sum of
  the column is itself a double).\<close>

definition lower_ascii_char :: "char \<Rightarrow> char" where
  "lower_ascii_char ch =
     (let n = of_char ch :: nat in if 65 \<le> n \<and> n \<le> 90 then char_of (n + 32) else ch)"

definition ascii_lower :: "string \<Rightarrow> string" where
  "ascii_lower s = map lower_ascii_char s"

definition exact_mean :: "rat list \<Rightarrow> pyfloat" where
  "exact_mean xs = (if xs = [] then NaN else Finite (fl (sum_list xs / of_nat (length xs))))"

definition reference_lib :: pylib where
  "reference_lib = \<lparr>str_lower = ascii_lower, series_mean = exact_mean\<rparr>"

text \<open>The first payload of test\_api.py, and the same flat with an area of 500.\<close>

definition typical_request :: PredictionRequest where
  "typical_request =
     \<lparr>area = Finite 85, rooms = 3, year_constructed = 2015, heating = GAZOWE,
      building_material = CEGLA, building_type = BLOK, market = WTORNY,
      voivodeship = MAZOWIECKIE, city = None, district = None\<rparr>"

definition large_request :: PredictionRequest where
  "large_request = typical_request\<lparr>area := Finite 500\<rparr>"

text \<open>A fitted label encoder numbers its classes in order. The example artifact has one
  for heating and one for the market segment, fitted on the values of models.py.\<close>

definition label_encoder :: "string list \<Rightarrow> encoder" where
  "label_encoder classes = map_of (zip classes (map int [0..<length classes]))"

definition example_encoders :: encoders where
  "example_encoders =
     [''Heating'' \<mapsto> label_encoder (map HeatingType_value
        [ELEKTRYCZNE, GAZOWE, INNE, KOMINKOWE_GAZOWE, KOTLOWNIA, MIEJSKIE, POMPA_CIEPLA, WEGLOWE]),
      ''Market'' \<mapsto> label_encoder (map MarketType_value [PIERWOTNY, WTORNY])]"

text \<open>An artifact directory with all three pieces (a regressor that always answers
  450000), the same directory without the encoders file, and an empty one.\<close>

definition example_model :: regressor where
  "example_model = (\<lambda>X. Inr (Finite 450000))"

definition example_storage :: storage where
  "example_storage =
     \<lparr>MODEL_PATH = ''/srv/models/price_model.joblib'',
      ENCODERS_PATH = ''/srv/models/label_encoders.joblib'',
      FEATURES_PATH = ''/srv/models/features.joblib'',
      model_file = Some example_model, encoders_file = Some example_encoders,
      features_file = Some feature_names\<rparr>"

definition no_encoders_storage :: storage where
  "no_encoders_storage = example_storage\<lparr>encoders_file := None\<rparr>"

definition empty_storage :: storage where
  "empty_storage =
     example_storage\<lparr>model_file := None, encoders_file := None, features_file := None\<rparr>"

text \<open>A dataset with every column present, and a row given by its seven cells.\<close>

definition all_columns :: "string \<rightharpoonup> dtype" where
  "all_columns =
     [''Price'' \<mapsto> NumericDtype, ''Area (m'' @ [CHR 0xC2, CHR 0xB2] @ '')'' \<mapsto> NumericDtype,
      ''Number of rooms'' \<mapsto> NumericDtype, ''year_const'' \<mapsto> NumericDtype,
      ''voivodeship'' \<mapsto> ObjectDtype, ''city'' \<mapsto> ObjectDtype, ''district'' \<mapsto> ObjectDtype]"

definition make_row ::
  "rat \<Rightarrow> rat \<Rightarrow> rat \<Rightarrow> rat \<Rightarrow> string \<Rightarrow> string \<Rightarrow> string \<Rightarrow> string \<Rightarrow> cell" where
  "make_row price ar rms year voiv cty dst name =
     (if name = ''Price'' then Num price
      else if name = ''Area (m'' @ [CHR 0xC2, CHR 0xB2] @ '')'' then Num ar
      else if name = ''Number of rooms'' then Num rms
      else if name = ''year_const'' then Num year
      else if name = ''voivodeship'' then Str voiv
      else if name = ''city'' then Str cty
      else if name = ''district'' then Str dst
      else Missing)"

definition row_gdynia :: "string \<Rightarrow> cell" where
  "row_gdynia = make_row 300000 50 2 1999 ''pomorskie'' ''Gdynia'' ''Orlowo''"

definition row_GDYNIA :: "string \<Rightarrow> cell" where
  "row_GDYNIA = make_row 500000 70 3 2001 ''pomorskie'' ''GDYNIA'' ''Redlowo''"

definition row_sopot :: "string \<Rightarrow> cell" where
  "row_sopot = make_row 400000 60 3 2010 ''pomorskie'' ''Sopot'' ''Centrum''"

definition coast_frame :: frame where
  "coast_frame = \<lparr>dtypes = all_columns, rows = [row_gdynia, row_GDYNIA, row_sopot]\<rparr>"

text \<open>The same rows in a file that has no district column.\<close>

definition no_district_frame :: frame where
  "no_district_frame = coast_frame\<lparr>dtypes := all_columns(''district'' := None)\<rparr>"

text \<open>One flat whose price has three decimals (100000.125 is a double).\<close>

definition odd_price_frame :: frame where
  "odd_price_frame =
     \<lparr>dtypes = all_columns,
      rows = [make_row (800001 / 8) 50 2 1999 ''pomorskie'' ''Gdynia'' ''Orlowo'']\<rparr>"

text \<open>Ten flats in one city, nine built in 2000 and one in 1999: a mean year of 1999.9.\<close>

definition flat_2000 :: "string \<Rightarrow> cell" where
  "flat_2000 = make_row 300000 50 2 2000 ''pomorskie'' ''Gdynia'' ''Orlowo''"

definition flat_1999 :: "string \<Rightarrow> cell" where
  "flat_1999 = make_row 300000 50 2 1999 ''pomorskie'' ''Gdynia'' ''Orlowo''"

definition decade_frame :: frame where
  "decade_frame =
     \<lparr>dtypes = all_columns,
      rows = [flat_2000, flat_2000, flat_2000, flat_2000, flat_2000, flat_2000, flat_2000,
              flat_2000, flat_2000, flat_1999]\<rparr>"

definition gdynia_request :: PredictionRequest where
  "gdynia_request = typical_request\<lparr>city := Some ''gdynia''\<rparr>"

definition orlowo_request :: PredictionRequest where
  "orlowo_request = typical_request\<lparr>city := Some ''gdynia'', district := Some ''ORLOWO''\<rparr>"

definition krakow_request :: PredictionRequest where
  "krakow_request = typical_request\<lparr>city := Some ''Krakow'', district := Some ''Wawer''\<rparr>"

definition blank_request :: PredictionRequest where
  "blank_request = typical_request\<lparr>city := Some [], district := Some []\<rparr>"

section \<open>Properties of the confidence label\<close>

lemma fl_tenths:
  "fl (2 / 10) = 3602879701896397 / 18014398509481984"
  "fl (3 / 10) = 5404319552844595 / 18014398509481984"
  "fl (4 / 10) = 3602879701896397 / 9007199254740992"
  "fl (5 / 10) = 1 / 2"
  "fl (6 / 10) = 5404319552844595 / 9007199254740992"
  "fl (7 / 10) = 3152519739159347 / 4503599627370496"
  "fl (8 / 10) = 3602879701896397 / 4503599627370496"
  "fl (10 / 10) = 1"
  by code_simp+

text \<open>Every float sum that the four rules can produce, step by step.\<close>

lemma fadd_table:
  "fadd 0 (fl (3 / 10)) = fl (3 / 10)"
  "fadd 0 (fl (2 / 10)) = fl (2 / 10)"
  "fadd (fl (3 / 10)) (fl (2 / 10)) = fl (5 / 10)"
  "fadd (fl (2 / 10)) (fl (2 / 10)) = fl (4 / 10)"
  "fadd (fl (5 / 10)) (fl (2 / 10)) = fl (7 / 10)"
  "fadd (fl (2 / 10)) (fl (3 / 10)) = fl (5 / 10)"
  "fadd (fl (3 / 10)) (fl (3 / 10)) = fl (6 / 10)"
  "fadd (fl (4 / 10)) (fl (3 / 10)) = fl (7 / 10)"
  "fadd (fl (5 / 10)) (fl (3 / 10)) = fl (8 / 10)"
  "fadd (fl (7 / 10)) (fl (3 / 10)) = fl (10 / 10)"
  unfolding fadd_def fl_tenths by code_simp+

lemma label_table:
  "confidence_label 0 = ''Low''"
  "confidence_label (fl (2 / 10)) = ''Low''"
  "confidence_label (fl (3 / 10)) = ''Low''"
  "confidence_label (fl (4 / 10)) = ''Low''"
  "confidence_label (fl (5 / 10)) = ''Medium''"
  "confidence_label (fl (6 / 10)) = ''Medium''"
  "confidence_label (fl (7 / 10)) = ''Medium''"
  "confidence_label (fl (8 / 10)) = ''High''"
  "confidence_label (fl (10 / 10)) = ''High''"
  unfolding confidence_label_def fl_tenths by simp_all

text \<open>Floats do not add like rationals in general; the table above is what makes the
  score exact here.\<close>

lemma float_sum_not_exact: "fadd (fl (1 / 10)) (fl (2 / 10)) \<noteq> fl (3 / 10)"
  by code_simp

lemma in_interval_iff: "in_interval lo hi x \<longleftrightarrow> int_le_float lo x \<and> float_le_int x hi"
  by (cases x) (simp_all add: in_interval_def)

lemma fl0: "fl 0 = 0" by (simp add: fl_def)

lemma score_chain_value:
  "score_chain a b c d = fl (weight_sum a b c d)"
  unfolding score_chain_def weight_sum_def
  by (cases a; cases b; cases c; cases d)
     (simp_all only: add_if_def if_True if_False fadd_table, simp_all add: fl0)

lemma score_chain_label:
  "confidence_label (score_chain a b c d) = spec_label (weight_sum a b c d)"
  unfolding score_chain_def weight_sum_def
  by (cases a; cases b; cases c; cases d)
     (simp_all only: add_if_def if_True if_False fadd_table label_table, simp_all add: spec_label_def)

lemma confidence_score_chain:
  "confidence_score r p =
     score_chain (in_interval 40 200 (area r)) (2 \<le> rooms r \<and> rooms r \<le> 5)
       (1960 \<le> year_constructed r \<and> year_constructed r \<le> 2025) (in_interval 100000 1500000 p)"
  by (simp add: confidence_score_def score_chain_def in_interval_iff)

lemma spec_score_sum:
  "spec_score r p =
     weight_sum (in_interval 40 200 (area r)) (2 \<le> rooms r \<and> rooms r \<le> 5)
       (1960 \<le> year_constructed r \<and> year_constructed r \<le> 2025) (in_interval 100000 1500000 p)"
  by (simp add: spec_score_def weight_sum_def)

text \<open>
  Claim C2. For every request and predicted price the label is the one obtained by summing
  the weights 0.3 (area in [40,200]), 0.2 (rooms in [2,5]), 0.2 (year in [1960,2025]) and
  0.3 (price in [100000,1500000]) of the rules that hold, and mapping a sum of at least 0.8
  to High, of at least 0.5 to Medium, and anything else to Low. The float score the code
  accumulates is the double nearest to that exact sum. A request meeting all four rules is
  High; one failing only the area rule has score 0.7 and is Medium.
\<close>

theorem determine_confidence_rule:
  "determine_confidence r p = spec_label (spec_score r p)
   \<and> confidence_score r p = fl (spec_score r p)
   \<and> (in_interval 40 200 (area r) \<and> 2 \<le> rooms r \<and> rooms r \<le> 5
        \<and> 1960 \<le> year_constructed r \<and> year_constructed r \<le> 2025
        \<and> in_interval 100000 1500000 p
      \<longrightarrow> determine_confidence r p = ''High'')
   \<and> (\<not> in_interval 40 200 (area r) \<and> 2 \<le> rooms r \<and> rooms r \<le> 5
        \<and> 1960 \<le> year_constructed r \<and> year_constructed r \<le> 2025
        \<and> in_interval 100000 1500000 p
      \<longrightarrow> spec_score r p = 7 / 10 \<and> confidence_score r p = fl (7 / 10)
          \<and> determine_confidence r p = ''Medium'')"
proof -
  have A: "determine_confidence r p = spec_label (spec_score r p)"
    by (simp only: determine_confidence_def confidence_score_chain spec_score_sum score_chain_label)
  have B: "confidence_score r p = fl (spec_score r p)"
    by (simp only: confidence_score_chain spec_score_sum score_chain_value)
  have C: "spec_score r p = 1" if "in_interval 40 200 (area r)" "2 \<le> rooms r \<and> rooms r \<le> 5"
     "1960 \<le> year_constructed r \<and> year_constructed r \<le> 2025" "in_interval 100000 1500000 p"
    using that by (simp add: spec_score_def)
  have D: "spec_score r p = 7 / 10" if "\<not> in_interval 40 200 (area r)" "2 \<le> rooms r \<and> rooms r \<le> 5"
     "1960 \<le> year_constructed r \<and> year_constructed r \<le> 2025" "in_interval 100000 1500000 p"
    using that by (simp add: spec_score_def)
  have E: "spec_label 1 = ''High''" "spec_label (7 / 10) = ''Medium''"
    by (simp_all add: spec_label_def)
  show ?thesis
    using A B C D E by metis
qed

theorem determine_confidence_rule_witness:
  "determine_confidence typical_request (Finite 450000) = ''High''
   \<and> confidence_score large_request (Finite 450000) = fl (7 / 10)
   \<and> determine_confidence large_request (Finite 450000) = ''Medium''"
proof -
  have all_four: "in_interval 40 200 (area typical_request)
      \<and> 2 \<le> rooms typical_request \<and> rooms typical_request \<le> 5
      \<and> 1960 \<le> year_constructed typical_request \<and> year_constructed typical_request \<le> 2025
      \<and> in_interval 100000 1500000 (Finite 450000)"
    by (simp add: typical_request_def in_interval_def)
  have area_only: "\<not> in_interval 40 200 (area large_request)
      \<and> 2 \<le> rooms large_request \<and> rooms large_request \<le> 5
      \<and> 1960 \<le> year_constructed large_request \<and> year_constructed large_request \<le> 2025
      \<and> in_interval 100000 1500000 (Finite 450000)"
    by (simp add: large_request_def typical_request_def in_interval_def)
  from all_four area_only
    determine_confidence_rule [of typical_request "Finite 450000"]
    determine_confidence_rule [of large_request "Finite 450000"]
  show ?thesis by blast
qed

section \<open>Properties of the feature encoding\<close>

lemma those_map_Some:
  "those (map f xs) = Some v \<Longrightarrow> length v = length xs \<and> (\<forall>i<length xs. f (xs ! i) = Some (v ! i))"
proof (induction xs arbitrary: v)
  case Nil
  then show ?case by simp
next
  case (Cons x xs)
  from Cons.prems obtain y ys where y: "f x = Some y" and ys: "those (map f xs) = Some ys" and v: "v = y # ys"
    by (auto split: option.splits)
  from Cons.IH [OF ys] show ?case
    using y v by (auto simp: nth_Cons split: nat.splits)
qed

lemma those_map_None:
  "those (map f xs) = None \<longleftrightarrow> (\<exists>x\<in>set xs. f x = None)"
  by (induction xs) (auto split: option.splits)

lemma encode_column_other:
  "encode_column encs col X = Inr X' \<Longrightarrow> c \<noteq> col \<Longrightarrow> X' c = X c"
  by (auto simp: encode_column_def split: option.splits pyvalue.splits)

lemma encode_column_same:
  "encode_column encs col X = Inr X' \<Longrightarrow> X' col = encoded_cell encs col (X col)"
  by (auto simp: encode_column_def encoded_cell_def split: option.splits pyvalue.splits)

lemma encode_column_Inr_iff:
  "(\<exists>X'. encode_column encs col X = Inr X') \<longleftrightarrow> (encs col = None \<or> encoded_cell encs col (X col) \<noteq> None)"
  by (auto simp: encode_column_def encoded_cell_def split: option.splits pyvalue.splits)

lemma encode_columns_Inr:
  "encode_columns encs cols X = Inr X' \<Longrightarrow> distinct cols \<Longrightarrow>
     X' c = (if c \<in> set cols then encoded_cell encs c (X c) else X c)"
proof (induction cols arbitrary: X)
  case Nil
  then show ?case by simp
next
  case (Cons col cols)
  from Cons.prems(1) obtain X1 where X1: "encode_column encs col X = Inr X1"
    and rest: "encode_columns encs cols X1 = Inr X'"
    by (auto split: sum.splits)
  from Cons.prems(2) have d: "distinct cols" and n: "col \<notin> set cols" by simp_all
  have IH: "X' c = (if c \<in> set cols then encoded_cell encs c (X1 c) else X1 c)"
    by (rule Cons.IH [OF rest d])
  show ?case
  proof (cases "c = col")
    case True
    with IH n encode_column_same [OF X1] show ?thesis by simp
  next
    case False
    with IH encode_column_other [OF X1 False] show ?thesis by simp
  qed
qed

lemma encode_columns_succeeds:
  "distinct cols \<Longrightarrow> (\<forall>c\<in>set cols. encs c = None \<or> encoded_cell encs c (X c) \<noteq> None) \<Longrightarrow>
     \<exists>X'. encode_columns encs cols X = Inr X'"
proof (induction cols arbitrary: X)
  case Nil
  then show ?case by simp
next
  case (Cons col cols)
  from Cons.prems have "encs col = None \<or> encoded_cell encs col (X col) \<noteq> None" by simp
  then obtain X1 where X1: "encode_column encs col X = Inr X1"
    using encode_column_Inr_iff by blast
  have "\<forall>c\<in>set cols. encs c = None \<or> encoded_cell encs c (X1 c) \<noteq> None"
  proof
    fix c assume c: "c \<in> set cols"
    with Cons.prems(1) have "c \<noteq> col" by auto
    from encode_column_other [OF X1 this] Cons.prems(2) c show "encs c = None \<or> encoded_cell encs c (X1 c) \<noteq> None"
      by simp
  qed
  with Cons.IH [of X1] Cons.prems(1) obtain X' where "encode_columns encs cols X1 = Inr X'" by auto
  with X1 show ?case by simp
qed

lemma encoded_feature_dict:
  "(if c \<in> set categorical_columns then encoded_cell encs c (map_of (feature_dict r) c)
    else map_of (feature_dict r) c) = feature_value r encs c"
  by (simp add: categorical_columns_def feature_dict_def feature_value_def encoded_cell_def
        categorical_value_def split: option.splits)


lemma feature_value_None: "f \<notin> set feature_names \<Longrightarrow> feature_value r encs f = None"
  by (simp add: feature_names_def feature_value_def)

lemma feature_value_Some:
  assumes "\<forall>col\<in>set categorical_columns. feature_value r encs col \<noteq> None"
      and "f \<in> set feature_names"
  shows "feature_value r encs f \<noteq> None"
proof (cases "f \<in> set categorical_columns")
  case True
  with assms(1) show ?thesis by blast
next
  case False
  with assms(2) show ?thesis
    by (auto simp: feature_names_def categorical_columns_def feature_value_def)
qed

lemma encode_columns_feature_value:
  assumes "encode_columns encs categorical_columns (map_of (feature_dict r)) = Inr X"
  shows "X = feature_value r encs"
proof
  fix c
  have "distinct categorical_columns" by (simp add: categorical_columns_def)
  from encode_columns_Inr [OF assms this, of c] show "X c = feature_value r encs c"
    by (simp only: encoded_feature_dict)
qed

lemma encode_Inr_iff:
  "encode r encs fo = Inr v \<longleftrightarrow>
     (\<exists>X. encode_columns encs categorical_columns (map_of (feature_dict r)) = Inr X)
     \<and> those (map (feature_value r encs) fo) = Some v"
proof (cases "encode_columns encs categorical_columns (map_of (feature_dict r))")
  case (Inl e)
  then show ?thesis by (simp add: encode_def)
next
  case (Inr X)
  then have "X = feature_value r encs" by (rule encode_columns_feature_value)
  with Inr show ?thesis
    by (auto simp: encode_def reorder_def split: option.splits)
qed

lemma encodable_columns:
  assumes "\<forall>col\<in>set categorical_columns. feature_value r encs col \<noteq> None"
  shows "\<exists>X. encode_columns encs categorical_columns (map_of (feature_dict r)) = Inr X"
proof (rule encode_columns_succeeds)
  show "distinct categorical_columns" by (simp add: categorical_columns_def)
  show "\<forall>c\<in>set categorical_columns.
          encs c = None \<or> encoded_cell encs c (map_of (feature_dict r) c) \<noteq> None"
  proof
    fix c assume c: "c \<in> set categorical_columns"
    with encoded_feature_dict [of c encs r]
    have "encoded_cell encs c (map_of (feature_dict r) c) = feature_value r encs c" by simp
    with assms c show "encs c = None \<or> encoded_cell encs c (map_of (feature_dict r) c) \<noteq> None"
      by simp
  qed
qed

text \<open>The first test payload satisfies the field constraints of the request model.\<close>

lemma typical_request_valid: "valid_request typical_request"
  by (simp add: valid_request_def typical_request_def)

text \<open>
  Claim C1. For every request, \<open>encode\<close> builds the named feature mapping (area, rooms,
  year and the five categorical values, each encoded when the artifact has an encoder
  for its column) and reorders it into the artifact's feature order: a returned vector has
  the length of the feature order and its i-th entry is the value of the i-th feature
  name. A feature name that is not in the mapping never yields a vector: the call ends in
  an exception, which is the \<^verbatim>\<open>KeyError\<close> naming the absent features whenever the
  categorical values themselves can be encoded. When they can and every name is a feature,
  a vector is returned.
\<close>

theorem encode_feature_order:
  "(encode r encs fo = Inr v \<longrightarrow>
      length v = length fo \<and> (\<forall>i<length fo. feature_value r encs (fo ! i) = Some (v ! i)))
   \<and> ((\<exists>f\<in>set fo. f \<notin> set feature_names) \<longrightarrow> (\<exists>e. encode r encs fo = Inl e))
   \<and> ((\<forall>col\<in>set categorical_columns. feature_value r encs col \<noteq> None)
        \<and> (\<exists>f\<in>set fo. f \<notin> set feature_names)
      \<longrightarrow> encode r encs fo = Inl (KeyError (filter (\<lambda>f. f \<notin> set feature_names) fo)))
   \<and> ((\<forall>col\<in>set categorical_columns. feature_value r encs col \<noteq> None)
        \<and> set fo \<subseteq> set feature_names
      \<longrightarrow> (\<exists>w. encode r encs fo = Inr w))"
proof -
  have ordered: "length v = length fo \<and> (\<forall>i<length fo. feature_value r encs (fo ! i) = Some (v ! i))"
    if "encode r encs fo = Inr v"
  proof -
    from that have "those (map (feature_value r encs) fo) = Some v"
      by (simp add: encode_Inr_iff)
    then show ?thesis by (rule those_map_Some)
  qed
  have fatal: "\<exists>e. encode r encs fo = Inl e" if "\<exists>f\<in>set fo. f \<notin> set feature_names"
  proof -
    from that have "those (map (feature_value r encs) fo) = None"
      unfolding those_map_None using feature_value_None by blast
    then have "\<not> (\<exists>w. encode r encs fo = Inr w)"
      by (simp add: encode_Inr_iff)
    then show ?thesis by (cases "encode r encs fo") auto
  qed
  have key_error: "encode r encs fo = Inl (KeyError (filter (\<lambda>f. f \<notin> set feature_names) fo))"
    if H: "(\<forall>col\<in>set categorical_columns. feature_value r encs col \<noteq> None)
        \<and> (\<exists>f\<in>set fo. f \<notin> set feature_names)"
  proof -
    from H obtain X where X: "encode_columns encs categorical_columns (map_of (feature_dict r)) = Inr X"
      using encodable_columns by blast
    then have XF: "X = feature_value r encs" by (rule encode_columns_feature_value)
    have none: "those (map (feature_value r encs) fo) = None"
      unfolding those_map_None using H feature_value_None by blast
    have "(\<lambda>f. feature_value r encs f = None) = (\<lambda>f. f \<notin> set feature_names)"
      using H feature_value_None feature_value_Some by blast
    with X XF none show ?thesis by (simp add: encode_def reorder_def)
  qed
  have productive: "\<exists>w. encode r encs fo = Inr w"
    if H: "(\<forall>col\<in>set categorical_columns. feature_value r encs col \<noteq> None)
        \<and> set fo \<subseteq> set feature_names"
  proof -
    from H have X: "\<exists>X. encode_columns encs categorical_columns (map_of (feature_dict r)) = Inr X"
      using encodable_columns by blast
    have "those (map (feature_value r encs) fo) \<noteq> None"
      unfolding those_map_None using H feature_value_Some by blast
    then obtain w where "those (map (feature_value r encs) fo) = Some w" by auto
    with X have "encode r encs fo = Inr w" by (simp add: encode_Inr_iff)
    then show ?thesis ..
  qed
  from ordered fatal key_error productive show ?thesis by blast
qed

theorem encode_feature_order_witness:
  "encode typical_request example_encoders feature_names =
     Inr [PyFloat (Finite 85), PyInt 3, PyInt 2015, PyInt 1, PyStr (''ceg'' @ [CHR 0xC5, CHR 0x82] @ ''a''),
          PyStr ''blok'', PyInt 1, PyStr ''mazowieckie'']
   \<and> feature_value typical_request example_encoders (feature_names ! 3) = Some (PyInt 1)
   \<and> (\<exists>f\<in>set features_used. f \<notin> set feature_names)
   \<and> encode typical_request example_encoders features_used = Inl (KeyError [''city''])
   \<and> (\<exists>w. encode typical_request example_encoders feature_names = Inr w)"
proof -
  let ?row = "[PyFloat (Finite 85), PyInt 3, PyInt 2015, PyInt 1,
      PyStr (''ceg'' @ [CHR 0xC5, CHR 0x82] @ ''a''), PyStr ''blok'', PyInt 1, PyStr ''mazowieckie'']"
  have enc: "encode typical_request example_encoders feature_names = Inr ?row"
    by code_simp
  have cats: "\<forall>col\<in>set categorical_columns. feature_value typical_request example_encoders col \<noteq> None"
    by code_simp
  have miss: "\<exists>f\<in>set features_used. f \<notin> set feature_names"
    by code_simp
  have named: "set feature_names \<subseteq> set feature_names"
    by simp
  have left: "filter (\<lambda>f. f \<notin> set feature_names) features_used = [''city'']"
    by code_simp
  have three: "(3::nat) < length feature_names"
    by (simp add: feature_names_def)
  from encode_feature_order [of typical_request example_encoders feature_names ?row] enc three
  have a: "feature_value typical_request example_encoders (feature_names ! 3) = Some (?row ! 3)"
    by blast
  from encode_feature_order [of typical_request example_encoders features_used] cats miss
  have b: "encode typical_request example_encoders features_used
             = Inl (KeyError (filter (\<lambda>f. f \<notin> set feature_names) features_used))"
    by blast
  from encode_feature_order [of typical_request example_encoders feature_names] cats named
  have c: "\<exists>w. encode typical_request example_encoders feature_names = Inr w"
    by blast
  from enc a b c miss left show ?thesis by simp
qed

section \<open>Properties of the artifact cache\<close>

lemma get_model_cached:
  "get_model disk c = (Inr m, c') \<Longrightarrow> cached_model c' = Some m"
  by (auto simp: get_model_def split: option.splits sum.splits)

lemma get_encoders_cached:
  "get_encoders disk c = (Inr e, c') \<Longrightarrow> cached_encoders c' = Some e"
  by (auto simp: get_encoders_def split: option.splits sum.splits)

lemma get_features_cached:
  "get_features disk c = (Inr f, c') \<Longrightarrow> cached_features c' = Some f"
  by (auto simp: get_features_def split: option.splits sum.splits)

lemma keeps_refl: "keeps c c"
  by (simp add: keeps_def)

lemma keeps_trans: "keeps a b \<Longrightarrow> keeps b c \<Longrightarrow> keeps a c"
  by (auto simp: keeps_def)

lemma keeps_get_model: "keeps c (snd (get_model disk c))"
  by (auto simp: keeps_def get_model_def split: option.splits sum.splits)

lemma keeps_get_encoders: "keeps c (snd (get_encoders disk c))"
  by (auto simp: keeps_def get_encoders_def split: option.splits sum.splits)

lemma keeps_get_features: "keeps c (snd (get_features disk c))"
  by (auto simp: keeps_def get_features_def split: option.splits sum.splits)

lemma keeps_get_artifacts: "keeps c (snd (get_artifacts disk c))"
proof -
  obtain r1 c1 where g1: "get_model disk c = (r1, c1)" by (cases "get_model disk c")
  obtain r2 c2 where g2: "get_encoders disk c1 = (r2, c2)" by (cases "get_encoders disk c1")
  obtain r3 c3 where g3: "get_features disk c2 = (r3, c3)" by (cases "get_features disk c2")
  have k1: "keeps c c1" using keeps_get_model [of c disk] g1 by simp
  have k2: "keeps c1 c2" using keeps_get_encoders [of c1 disk] g2 by simp
  have k3: "keeps c2 c3" using keeps_get_features [of c2 disk] g3 by simp
  have "snd (get_artifacts disk c) = c1 \<or> snd (get_artifacts disk c) = c2
        \<or> snd (get_artifacts disk c) = c3"
    using g1 g2 g3 by (auto simp: get_artifacts_def split: sum.splits)
  with k1 k2 k3 show ?thesis using keeps_trans by blast
qed

lemma snd_startup_event: "snd (startup_event disk c) = snd (get_artifacts disk c)"
  by (auto simp: startup_event_def split: prod.splits sum.splits)

lemma snd_predict_price: "snd (predict_price lib disk csv request c) = snd (get_artifacts disk c)"
  by (auto simp: predict_price_def predict_try_def split: prod.splits sum.splits)

lemma get_model_eq:
  "get_model disk c =
     (case cached_model c of
        Some m \<Rightarrow> (Inr m, c)
      | None \<Rightarrow>
          (case model_file disk of
             None \<Rightarrow> (Inl (FileNotFoundError (''Model file not found at '' @ MODEL_PATH disk)), c)
           | Some m \<Rightarrow> (Inr m, c\<lparr>cached_model := Some m\<rparr>)))"
  by (simp add: get_model_def load_model_def split: option.splits)

lemma get_encoders_eq:
  "get_encoders disk c =
     (case cached_encoders c of
        Some e \<Rightarrow> (Inr e, c)
      | None \<Rightarrow>
          (case encoders_file disk of
             None \<Rightarrow> (Inl (FileNotFoundError (''Encoders file not found at '' @ ENCODERS_PATH disk)), c)
           | Some e \<Rightarrow> (Inr e, c\<lparr>cached_encoders := Some e\<rparr>)))"
  by (simp add: get_encoders_def load_encoders_def split: option.splits)

lemma get_features_eq:
  "get_features disk c =
     (case cached_features c of
        Some f \<Rightarrow> (Inr f, c)
      | None \<Rightarrow>
          (case features_file disk of
             None \<Rightarrow> (Inl (FileNotFoundError (''Features file not found at '' @ FEATURES_PATH disk)), c)
           | Some f \<Rightarrow> (Inr f, c\<lparr>cached_features := Some f\<rparr>)))"
  by (simp add: get_features_def load_features_def split: option.splits)

lemma startup_first_missing:
  "(model_file disk = None \<longrightarrow>
      startup_event disk empty_cache
        = (Inl (FileNotFoundError (''Model file not found at '' @ MODEL_PATH disk)), empty_cache))
   \<and> (model_file disk = Some m \<and> encoders_file disk = None \<longrightarrow>
      startup_event disk empty_cache
        = (Inl (FileNotFoundError (''Encoders file not found at '' @ ENCODERS_PATH disk)),
           empty_cache\<lparr>cached_model := Some m\<rparr>))
   \<and> (model_file disk = Some m \<and> encoders_file disk = Some e \<and> features_file disk = None \<longrightarrow>
      startup_event disk empty_cache
        = (Inl (FileNotFoundError (''Features file not found at '' @ FEATURES_PATH disk)),
           empty_cache\<lparr>cached_model := Some m, cached_encoders := Some e\<rparr>))
   \<and> (model_file disk = Some m \<and> encoders_file disk = Some e \<and> features_file disk = Some f \<longrightarrow>
      startup_event disk empty_cache
        = (Inr (), \<lparr>cached_model = Some m, cached_encoders = Some e, cached_features = Some f\<rparr>))"
  by (simp add: startup_event_def get_artifacts_def get_model_eq get_encoders_eq get_features_eq
        empty_cache_def)

lemma startup_missing:
  assumes "model_file disk = None \<or> encoders_file disk = None \<or> features_file disk = None"
  shows "\<exists>msg. fst (startup_event disk empty_cache) = Inl (FileNotFoundError msg)"
proof (cases "model_file disk")
  case None
  with startup_first_missing [of disk] show ?thesis by simp
next
  case m: (Some m)
  show ?thesis
  proof (cases "encoders_file disk")
    case None
    with m startup_first_missing [of disk m] show ?thesis by simp
  next
    case e: (Some e)
    with m assms have "features_file disk = None" by simp
    with m e startup_first_missing [of disk m e] show ?thesis by simp
  qed
qed

text \<open>
  Claim C9. Loading a piece whose file is absent raises \<^verbatim>\<open>FileNotFoundError\<close> with the
  path in its message, and loading a stored piece returns it. At start-up (empty cache)
  the absence of any of the three makes \<^verbatim>\<open>startup_event\<close> raise the error of the first
  absent piece; with all three present it succeeds and leaves all three cached. For each
  of the three pieces: the first access to an uncached piece returns what the storage
  holds and caches it, or raises and leaves the cache as it is when the file is absent; an
  access to a cached piece returns it and neither reads the storage nor changes the
  cache. Once an access has returned a piece, every later access returns that same
  piece, whatever the storage then holds. No operation of the program replaces or clears
  a cached piece.
\<close>

theorem artifact_load_and_cache:
  "(model_file disk = None \<longrightarrow>
      load_model disk = Inl (FileNotFoundError (''Model file not found at '' @ MODEL_PATH disk)))
   \<and> (encoders_file disk = None \<longrightarrow>
      load_encoders disk = Inl (FileNotFoundError (''Encoders file not found at '' @ ENCODERS_PATH disk)))
   \<and> (features_file disk = None \<longrightarrow>
      load_features disk = Inl (FileNotFoundError (''Features file not found at '' @ FEATURES_PATH disk)))
   \<and> (model_file disk = Some m \<longrightarrow> load_model disk = Inr m)
   \<and> (encoders_file disk = Some e \<longrightarrow> load_encoders disk = Inr e)
   \<and> (features_file disk = Some f \<longrightarrow> load_features disk = Inr f)
   \<and> (model_file disk = None \<or> encoders_file disk = None \<or> features_file disk = None
        \<longrightarrow> (\<exists>msg. fst (startup_event disk empty_cache) = Inl (FileNotFoundError msg)))
   \<and> (model_file disk = None \<longrightarrow>
      startup_event disk empty_cache
        = (Inl (FileNotFoundError (''Model file not found at '' @ MODEL_PATH disk)), empty_cache))
   \<and> (model_file disk = Some m \<and> encoders_file disk = None \<longrightarrow>
      startup_event disk empty_cache
        = (Inl (FileNotFoundError (''Encoders file not found at '' @ ENCODERS_PATH disk)),
           empty_cache\<lparr>cached_model := Some m\<rparr>))
   \<and> (model_file disk = Some m \<and> encoders_file disk = Some e \<and> features_file disk = None \<longrightarrow>
      startup_event disk empty_cache
        = (Inl (FileNotFoundError (''Features file not found at '' @ FEATURES_PATH disk)),
           empty_cache\<lparr>cached_model := Some m, cached_encoders := Some e\<rparr>))
   \<and> (model_file disk = Some m \<and> encoders_file disk = Some e \<and> features_file disk = Some f \<longrightarrow>
      startup_event disk empty_cache
        = (Inr (), \<lparr>cached_model = Some m, cached_encoders = Some e, cached_features = Some f\<rparr>))
   \<and> (cached_model c = None \<and> model_file disk = Some m
        \<longrightarrow> get_model disk c = (Inr m, c\<lparr>cached_model := Some m\<rparr>))
   \<and> (cached_encoders c = None \<and> encoders_file disk = Some e
        \<longrightarrow> get_encoders disk c = (Inr e, c\<lparr>cached_encoders := Some e\<rparr>))
   \<and> (cached_features c = None \<and> features_file disk = Some f
        \<longrightarrow> get_features disk c = (Inr f, c\<lparr>cached_features := Some f\<rparr>))
   \<and> (cached_model c = None \<and> model_file disk = None
        \<longrightarrow> get_model disk c
            = (Inl (FileNotFoundError (''Model file not found at '' @ MODEL_PATH disk)), c))
   \<and> (cached_encoders c = None \<and> encoders_file disk = None
        \<longrightarrow> get_encoders disk c
            = (Inl (FileNotFoundError (''Encoders file not found at '' @ ENCODERS_PATH disk)), c))
   \<and> (cached_features c = None \<and> features_file disk = None
        \<longrightarrow> get_features disk c
            = (Inl (FileNotFoundError (''Features file not found at '' @ FEATURES_PATH disk)), c))
   \<and> (cached_model c = Some m \<longrightarrow> get_model disk c = (Inr m, c))
   \<and> (cached_encoders c = Some e \<longrightarrow> get_encoders disk c = (Inr e, c))
   \<and> (cached_features c = Some f \<longrightarrow> get_features disk c = (Inr f, c))
   \<and> (get_model disk c = (Inr m, c') \<longrightarrow> (\<forall>disk'. get_model disk' c' = (Inr m, c')))
   \<and> (get_encoders disk c = (Inr e, c') \<longrightarrow> (\<forall>disk'. get_encoders disk' c' = (Inr e, c')))
   \<and> (get_features disk c = (Inr f, c') \<longrightarrow> (\<forall>disk'. get_features disk' c' = (Inr f, c')))
   \<and> keeps c (snd (get_model disk c)) \<and> keeps c (snd (get_encoders disk c))
   \<and> keeps c (snd (get_features disk c)) \<and> keeps c (snd (startup_event disk c))
   \<and> keeps c (snd (predict_price lib disk csv request c))"
proof -
  have loads:
    "model_file disk = None \<longrightarrow>
      load_model disk = Inl (FileNotFoundError (''Model file not found at '' @ MODEL_PATH disk))"
    "encoders_file disk = None \<longrightarrow>
      load_encoders disk = Inl (FileNotFoundError (''Encoders file not found at '' @ ENCODERS_PATH disk))"
    "features_file disk = None \<longrightarrow>
      load_features disk = Inl (FileNotFoundError (''Features file not found at '' @ FEATURES_PATH disk))"
    "model_file disk = Some m \<longrightarrow> load_model disk = Inr m"
    "encoders_file disk = Some e \<longrightarrow> load_encoders disk = Inr e"
    "features_file disk = Some f \<longrightarrow> load_features disk = Inr f"
    by (simp_all add: load_model_def load_encoders_def load_features_def)
  have first:
    "cached_model c = None \<and> model_file disk = Some m
        \<longrightarrow> get_model disk c = (Inr m, c\<lparr>cached_model := Some m\<rparr>)"
    "cached_encoders c = None \<and> encoders_file disk = Some e
        \<longrightarrow> get_encoders disk c = (Inr e, c\<lparr>cached_encoders := Some e\<rparr>)"
    "cached_features c = None \<and> features_file disk = Some f
        \<longrightarrow> get_features disk c = (Inr f, c\<lparr>cached_features := Some f\<rparr>)"
    by (simp_all add: get_model_eq get_encoders_eq get_features_eq)
  have failing:
    "cached_model c = None \<and> model_file disk = None
        \<longrightarrow> get_model disk c
            = (Inl (FileNotFoundError (''Model file not found at '' @ MODEL_PATH disk)), c)"
    "cached_encoders c = None \<and> encoders_file disk = None
        \<longrightarrow> get_encoders disk c
            = (Inl (FileNotFoundError (''Encoders file not found at '' @ ENCODERS_PATH disk)), c)"
    "cached_features c = None \<and> features_file disk = None
        \<longrightarrow> get_features disk c
            = (Inl (FileNotFoundError (''Features file not found at '' @ FEATURES_PATH disk)), c)"
    by (simp_all add: get_model_eq get_encoders_eq get_features_eq)
  have hit:
    "cached_model c = Some m \<longrightarrow> get_model disk c = (Inr m, c)"
    "cached_encoders c = Some e \<longrightarrow> get_encoders disk c = (Inr e, c)"
    "cached_features c = Some f \<longrightarrow> get_features disk c = (Inr f, c)"
    by (simp_all add: get_model_eq get_encoders_eq get_features_eq)
  have m: "\<forall>disk'. get_model disk' c' = (Inr m, c')" if "get_model disk c = (Inr m, c')"
    using get_model_cached [OF that] by (simp add: get_model_def)
  have e: "\<forall>disk'. get_encoders disk' c' = (Inr e, c')" if "get_encoders disk c = (Inr e, c')"
    using get_encoders_cached [OF that] by (simp add: get_encoders_def)
  have f: "\<forall>disk'. get_features disk' c' = (Inr f, c')" if "get_features disk c = (Inr f, c')"
    using get_features_cached [OF that] by (simp add: get_features_def)
  have k: "keeps c (snd (startup_event disk c))" "keeps c (snd (predict_price lib disk csv request c))"
    by (simp_all only: snd_startup_event snd_predict_price keeps_get_artifacts)
  have missing: "model_file disk = None \<or> encoders_file disk = None \<or> features_file disk = None
        \<longrightarrow> (\<exists>msg. fst (startup_event disk empty_cache) = Inl (FileNotFoundError msg))"
    using startup_missing [of disk] by blast
  note s = startup_first_missing [of disk m e f]
  have later:
    "get_model disk c = (Inr m, c') \<longrightarrow> (\<forall>disk'. get_model disk' c' = (Inr m, c'))"
    "get_encoders disk c = (Inr e, c') \<longrightarrow> (\<forall>disk'. get_encoders disk' c' = (Inr e, c'))"
    "get_features disk c = (Inr f, c') \<longrightarrow> (\<forall>disk'. get_features disk' c' = (Inr f, c'))"
    using m e f by blast+
  from loads missing s [THEN conjunct1] s [THEN conjunct2, THEN conjunct1]
    s [THEN conjunct2, THEN conjunct2, THEN conjunct1] s [THEN conjunct2, THEN conjunct2, THEN conjunct2]
    first failing hit later
    keeps_get_model [of c disk] keeps_get_encoders [of c disk] keeps_get_features [of c disk] k
  show ?thesis by (intro conjI)
qed

theorem artifact_load_and_cache_witness:
  "startup_event no_encoders_storage empty_cache
     = (Inl (FileNotFoundError ''Encoders file not found at /srv/models/label_encoders.joblib''),
        empty_cache\<lparr>cached_model := Some example_model\<rparr>)
   \<and> load_encoders no_encoders_storage
       = Inl (FileNotFoundError ''Encoders file not found at /srv/models/label_encoders.joblib'')
   \<and> get_model example_storage empty_cache
       = (Inr example_model, empty_cache\<lparr>cached_model := Some example_model\<rparr>)
   \<and> get_encoders example_storage empty_cache
       = (Inr example_encoders, empty_cache\<lparr>cached_encoders := Some example_encoders\<rparr>)
   \<and> get_features example_storage empty_cache
       = (Inr feature_names, empty_cache\<lparr>cached_features := Some feature_names\<rparr>)
   \<and> get_model empty_storage (empty_cache\<lparr>cached_model := Some example_model\<rparr>)
       = (Inr example_model, empty_cache\<lparr>cached_model := Some example_model\<rparr>)
   \<and> get_encoders empty_storage (empty_cache\<lparr>cached_encoders := Some example_encoders\<rparr>)
       = (Inr example_encoders, empty_cache\<lparr>cached_encoders := Some example_encoders\<rparr>)
   \<and> get_features empty_storage (empty_cache\<lparr>cached_features := Some feature_names\<rparr>)
       = (Inr feature_names, empty_cache\<lparr>cached_features := Some feature_names\<rparr>)
   \<and> get_features empty_storage empty_cache
       = (Inl (FileNotFoundError ''Features file not found at /srv/models/features.joblib''),
          empty_cache)"
proof -
  have absent: "encoders_file no_encoders_storage = None"
    and present: "model_file no_encoders_storage = Some example_model"
    and path: "ENCODERS_PATH no_encoders_storage = ''/srv/models/label_encoders.joblib''"
    by (simp_all add: no_encoders_storage_def example_storage_def)
  have stored: "model_file example_storage = Some example_model"
    "encoders_file example_storage = Some example_encoders"
    "features_file example_storage = Some feature_names"
    by (simp_all add: example_storage_def)
  have fresh: "cached_model empty_cache = None" "cached_encoders empty_cache = None"
    "cached_features empty_cache = None"
    by (simp_all add: empty_cache_def)
  have gone: "features_file empty_storage = None"
    and fpath: "FEATURES_PATH empty_storage = ''/srv/models/features.joblib''"
    by (simp_all add: empty_storage_def example_storage_def)
  note T = artifact_load_and_cache [where disk = no_encoders_storage and m = example_model]
  note U = artifact_load_and_cache [where disk = example_storage and c = empty_cache
      and m = example_model and e = example_encoders and f = feature_names]
  note V = artifact_load_and_cache [where disk = empty_storage and c = empty_cache]
  have a: "startup_event no_encoders_storage empty_cache
     = (Inl (FileNotFoundError ''Encoders file not found at /srv/models/label_encoders.joblib''),
        empty_cache\<lparr>cached_model := Some example_model\<rparr>)"
    using T [THEN conjunct2, THEN conjunct2, THEN conjunct2, THEN conjunct2, THEN conjunct2, THEN conjunct2, THEN conjunct2, THEN conjunct2, THEN conjunct1] absent present path by simp
  have b: "load_encoders no_encoders_storage
       = Inl (FileNotFoundError ''Encoders file not found at /srv/models/label_encoders.joblib'')"
    using T [THEN conjunct2, THEN conjunct1] absent path by simp
  have c1: "get_model example_storage empty_cache
       = (Inr example_model, empty_cache\<lparr>cached_model := Some example_model\<rparr>)"
    using U [THEN conjunct2, THEN conjunct2, THEN conjunct2, THEN conjunct2, THEN conjunct2, THEN conjunct2, THEN conjunct2, THEN conjunct2, THEN conjunct2, THEN conjunct2, THEN conjunct2, THEN conjunct1] stored fresh by simp
  have c2: "get_encoders example_storage empty_cache
       = (Inr example_encoders, empty_cache\<lparr>cached_encoders := Some example_encoders\<rparr>)"
    using U [THEN conjunct2, THEN conjunct2, THEN conjunct2, THEN conjunct2, THEN conjunct2, THEN conjunct2, THEN conjunct2, THEN conjunct2, THEN conjunct2, THEN conjunct2, THEN conjunct2, THEN conjunct2, THEN conjunct1] stored fresh by simp
  have c3: "get_features example_storage empty_cache
       = (Inr feature_names, empty_cache\<lparr>cached_features := Some feature_names\<rparr>)"
    using U [THEN conjunct2, THEN conjunct2, THEN conjunct2, THEN conjunct2, THEN conjunct2, THEN conjunct2, THEN conjunct2, THEN conjunct2, THEN conjunct2, THEN conjunct2, THEN conjunct2, THEN conjunct2, THEN conjunct2, THEN conjunct1] stored fresh by simp
  have d1: "get_model empty_storage (empty_cache\<lparr>cached_model := Some example_model\<rparr>)
       = (Inr example_model, empty_cache\<lparr>cached_model := Some example_model\<rparr>)"
    using artifact_load_and_cache [where disk = example_storage and c = empty_cache
      and m = example_model and c' = "empty_cache\<lparr>cached_model := Some example_model\<rparr>", THEN conjunct2, THEN conjunct2, THEN conjunct2, THEN conjunct2, THEN conjunct2, THEN conjunct2, THEN conjunct2, THEN conjunct2, THEN conjunct2, THEN conjunct2, THEN conjunct2, THEN conjunct2, THEN conjunct2, THEN conjunct2, THEN conjunct2, THEN conjunct2, THEN conjunct2, THEN conjunct2, THEN conjunct2, THEN conjunct2, THEN conjunct1,
      THEN mp, OF c1]
    by (rule spec)
  have d2: "get_encoders empty_storage (empty_cache\<lparr>cached_encoders := Some example_encoders\<rparr>)
       = (Inr example_encoders, empty_cache\<lparr>cached_encoders := Some example_encoders\<rparr>)"
    using artifact_load_and_cache [where disk = example_storage and c = empty_cache
      and e = example_encoders and c' = "empty_cache\<lparr>cached_encoders := Some example_encoders\<rparr>", THEN conjunct2, THEN conjunct2, THEN conjunct2, THEN conjunct2, THEN conjunct2, THEN conjunct2, THEN conjunct2, THEN conjunct2, THEN conjunct2, THEN conjunct2, THEN conjunct2, THEN conjunct2, THEN conjunct2, THEN conjunct2, THEN conjunct2, THEN conjunct2, THEN conjunct2, THEN conjunct2, THEN conjunct2, THEN conjunct2, THEN conjunct2, THEN conjunct1,
      THEN mp, OF c2]
    by (rule spec)
  have d3: "get_features empty_storage (empty_cache\<lparr>cached_features := Some feature_names\<rparr>)
       = (Inr feature_names, empty_cache\<lparr>cached_features := Some feature_names\<rparr>)"
    using artifact_load_and_cache [where disk = example_storage and c = empty_cache
      and f = feature_names and c' = "empty_cache\<lparr>cached_features := Some feature_names\<rparr>", THEN conjunct2, THEN conjunct2, THEN conjunct2, THEN conjunct2, THEN conjunct2, THEN conjunct2, THEN conjunct2, THEN conjunct2, THEN conjunct2, THEN conjunct2, THEN conjunct2, THEN conjunct2, THEN conjunct2, THEN conjunct2, THEN conjunct2, THEN conjunct2, THEN conjunct2, THEN conjunct2, THEN conjunct2, THEN conjunct2, THEN conjunct2, THEN conjunct2, THEN conjunct1,
      THEN mp, OF c3]
    by (rule spec)
  have g: "get_features empty_storage empty_cache
       = (Inl (FileNotFoundError ''Features file not found at /srv/models/features.joblib''),
          empty_cache)"
    using V [THEN conjunct2, THEN conjunct2, THEN conjunct2, THEN conjunct2, THEN conjunct2, THEN conjunct2, THEN conjunct2, THEN conjunct2, THEN conjunct2, THEN conjunct2, THEN conjunct2, THEN conjunct2, THEN conjunct2, THEN conjunct2, THEN conjunct2, THEN conjunct2, THEN conjunct1] gone fresh fpath by simp
  from a b c1 c2 c3 d1 d2 d3 g show ?thesis by (intro conjI)
qed

section \<open>Properties of the location filters\<close>

lemma cell_match_iff:
  "cell_eq (cell_lower lib x) (str_lower lib s) \<longleftrightarrow> (\<exists>t. x = Str t \<and> str_lower lib t = str_lower lib s)"
  by (cases x) auto

lemma cell_eq_iff: "cell_eq x s \<longleftrightarrow> x = Str s"
  by (cases x) auto

lemma filter_lower_eq_Inr:
  "filter_lower_eq lib df name s = Inr f \<Longrightarrow>
     dtypes f = dtypes df
     \<and> rows f = filter (\<lambda>r. \<exists>t. r name = Str t \<and> str_lower lib t = str_lower lib s) (rows df)"
  by (auto simp: filter_lower_eq_def cell_match_iff split: option.splits dtype.splits)

lemma filter_eq_Inr:
  "filter_eq df name s = Inr f \<Longrightarrow>
     dtypes f = dtypes df \<and> rows f = filter (\<lambda>r. r name = Str s) (rows df)"
  by (auto simp: filter_eq_def cell_eq_iff split: option.splits)

lemma exact_filter_Inr:
  "exact_filter name arg df = Inr f \<Longrightarrow>
     dtypes f = dtypes df \<and> set (rows f) \<subseteq> set (rows df)
     \<and> (\<forall>s. given arg = Some s \<longrightarrow> (\<forall>r\<in>set (rows f). r name = Str s))"
  by (auto simp: exact_filter_def dest!: filter_eq_Inr split: option.splits)

lemma filtered_by_location_rows:
  assumes "filtered_by_location df v c d = Inr f"
  shows "set (rows f) \<subseteq> set (rows df)
     \<and> (\<forall>s. given v = Some s \<longrightarrow> (\<forall>r\<in>set (rows f). r ''voivodeship'' = Str s))
     \<and> (\<forall>s. given c = Some s \<longrightarrow> (\<forall>r\<in>set (rows f). r ''city'' = Str s))
     \<and> (\<forall>s. given d = Some s \<longrightarrow> (\<forall>r\<in>set (rows f). r ''district'' = Str s))"
proof -
  from assms obtain f1 f2 where 1: "exact_filter ''voivodeship'' v df = Inr f1"
    and 2: "exact_filter ''city'' c f1 = Inr f2" and 3: "exact_filter ''district'' d f2 = Inr f"
    by (auto simp: filtered_by_location_def split: sum.splits)
  from exact_filter_Inr [OF 1] exact_filter_Inr [OF 2] exact_filter_Inr [OF 3]
  show ?thesis by blast
qed

lemma filter_properties_empty:
  assumes "filtered_by_location df v c d = Inr f" "rows f = []"
  shows "filter_properties lib (Inr df) v c d
           = Inl (HTTPException 400 (Formatted ''Error filtering properties: '' not_found))"
  using assms by (simp add: filter_properties_def filter_try_def)

text \<open>
  Claim C3, evaluated on the code. On a dataset none of whose rows lies in the requested
  province the body raises the 404 exception, the surrounding handler catches it, and the
  caller receives status 400 with the 404 wrapped in the detail: the same status as for a
  dataset that cannot be read.
\<close>

theorem filter_no_match_status:
  "filter_properties reference_lib (Inr coast_frame) (Some ''mazowieckie'') None None
     = Inl (HTTPException 400 (Formatted ''Error filtering properties: ''
         (HTTPException 404 (Text ''No properties found matching the filter criteria''))))
   \<and> status_code (filter_properties reference_lib (Inr coast_frame) (Some ''mazowieckie'') None None) = 400
   \<and> status_code (filter_properties reference_lib (Inl (FileNotFoundError ''data_processed.csv'')) (Some ''mazowieckie'') None None) = 400"
  by code_simp


lemma city_filter_rows:
  "city_filter lib request df = Inr by_city \<Longrightarrow> given (city request) = Some c \<Longrightarrow>
     rows by_city = filter (\<lambda>r. \<exists>t. r ''city'' = Str t \<and> str_lower lib t = str_lower lib c) (rows df)"
  by (auto simp: city_filter_def dest: filter_lower_eq_Inr)

lemma district_filter_rows:
  "district_filter lib request df = Inr f \<Longrightarrow> given (district request) = Some d \<Longrightarrow>
     rows f = filter (\<lambda>r. \<exists>t. r ''district'' = Str t \<and> str_lower lib t = str_lower lib d) (rows df)"
  by (auto simp: district_filter_def dest!: filter_lower_eq_Inr split: if_splits)

lemma filter_lower_eq_query:
  assumes "str_lower lib s1 = str_lower lib s2"
  shows "filter_lower_eq lib df name s1 = filter_lower_eq lib df name s2"
  unfolding filter_lower_eq_def assms ..

lemma city_filter_same_case:
  assumes "city_filter lib request df = Inr by_city"
    and "r1 \<in> set (rows df)" "r2 \<in> set (rows df)"
    and "r1 ''city'' = Str a" "r2 ''city'' = Str b" "str_lower lib a = str_lower lib b"
  shows "r1 \<in> set (rows by_city) \<longleftrightarrow> r2 \<in> set (rows by_city)"
proof (cases "given (city request)")
  case None
  with assms(1) have "by_city = df" by (simp add: city_filter_def)
  with assms show ?thesis by simp
next
  case (Some c)
  from city_filter_rows [OF assms(1) Some] assms(2-) show ?thesis by simp
qed

lemma district_filter_same_case:
  assumes "district_filter lib request df = Inr f"
    and "r1 \<in> set (rows df)" "r2 \<in> set (rows df)"
    and "r1 ''district'' = Str a" "r2 ''district'' = Str b" "str_lower lib a = str_lower lib b"
  shows "r1 \<in> set (rows f) \<longleftrightarrow> r2 \<in> set (rows f)"
proof (cases "given (district request)")
  case None
  with assms(1) have "f = df" by (simp add: district_filter_def)
  with assms show ?thesis by simp
next
  case (Some d)
  from district_filter_rows [OF assms(1) Some] assms(2-) show ?thesis by simp
qed

lemma cell_lower_case:
  "cell_eq (cell_lower lib x) (str_lower lib s)
     = (case x of Str t \<Rightarrow> str_lower lib t = str_lower lib s | _ \<Rightarrow> False)"
  by (cases x) simp_all

lemma filter_lower_eq_iff:
  "filter_lower_eq lib df name s = Inr f \<longleftrightarrow>
     dtypes df name = Some ObjectDtype
     \<and> f = df\<lparr>rows := filter (\<lambda>r. matches_lower lib (Some s) (r name)) (rows df)\<rparr>"
  if "s \<noteq> []"
  using that
  by (auto simp: filter_lower_eq_def matches_lower_def cell_lower_case
        split: option.splits dtype.splits)

lemma city_filter_iff:
  "city_filter lib request df = Inr by_city \<longleftrightarrow>
     (given (city request) = None \<or> dtypes df ''city'' = Some ObjectDtype)
     \<and> by_city = df\<lparr>rows := filter (\<lambda>r. matches_lower lib (city request) (r ''city'')) (rows df)\<rparr>"
proof (cases "given (city request)")
  case None
  then show ?thesis by (auto simp: city_filter_def matches_lower_def)
next
  case (Some s)
  then have s: "s \<noteq> []" and g: "given (Some s) = given (city request)"
    by (cases "city request"; simp split: if_splits)+
  have "matches_lower lib (Some s) = matches_lower lib (city request)"
    using Some s by (simp add: matches_lower_def fun_eq_iff)
  with Some filter_lower_eq_iff [OF s, of lib df "''city''" by_city] show ?thesis
    by (simp add: city_filter_def)
qed

lemma district_filter_iff:
  "district_filter lib request df = Inr by_district \<longleftrightarrow>
     (given (district request) = None \<or> rows df = [] \<or> dtypes df ''district'' = Some ObjectDtype)
     \<and> by_district
         = df\<lparr>rows := filter (\<lambda>r. matches_lower lib (district request) (r ''district'')) (rows df)\<rparr>"
proof (cases "given (district request)")
  case None
  then show ?thesis by (auto simp: district_filter_def matches_lower_def)
next
  case (Some s)
  then have s: "s \<noteq> []" and g: "given (Some s) = given (district request)"
    by (cases "district request"; simp split: if_splits)+
  have m: "matches_lower lib (Some s) = matches_lower lib (district request)"
    using Some s by (simp add: matches_lower_def fun_eq_iff)
  show ?thesis
  proof (cases "rows df = []")
    case True
    with Some show ?thesis by (auto simp: district_filter_def)
  next
    case False
    with Some m filter_lower_eq_iff [OF s, of lib df "''district''" by_district] show ?thesis
      by (simp add: district_filter_def)
  qed
qed

lemma exact_filter_iff:
  "exact_filter name arg df = Inr f \<longleftrightarrow>
     (given arg = None \<or> dtypes df name \<noteq> None)
     \<and> f = df\<lparr>rows := filter (\<lambda>r. matches_exactly arg (r name)) (rows df)\<rparr>"
  by (cases "given arg")
     (auto simp: exact_filter_def filter_eq_def matches_exactly_def cell_eq_iff split: option.splits)

lemma filtered_by_location_iff:
  "filtered_by_location df v c d = Inr f \<longleftrightarrow>
     (given v = None \<or> dtypes df ''voivodeship'' \<noteq> None)
     \<and> (given c = None \<or> dtypes df ''city'' \<noteq> None)
     \<and> (given d = None \<or> dtypes df ''district'' \<noteq> None)
     \<and> f = df\<lparr>rows := filter (\<lambda>r. matches_exactly v (r ''voivodeship'')
                                 \<and> matches_exactly c (r ''city'')
                                 \<and> matches_exactly d (r ''district'')) (rows df)\<rparr>"
proof -
  have "filtered_by_location df v c d = Inr f \<longleftrightarrow>
      (\<exists>f1 f2. exact_filter ''voivodeship'' v df = Inr f1 \<and> exact_filter ''city'' c f1 = Inr f2
          \<and> exact_filter ''district'' d f2 = Inr f)"
    by (auto simp: filtered_by_location_def split: sum.splits)
  then show ?thesis
    by (auto simp: exact_filter_iff conj_assoc)
qed

text \<open>
  Claim C4. In the prediction path the city filter and the district filter keep exactly
  the rows whose cell, lower-cased, equals the lower-cased filter value (every row when the
  value is absent), and they succeed exactly when the column they read is a string column
  (the district filter also when no row is left to read). So two rows of the dataset whose
  city (or district) differ only in letter case, that is, have the same lower-cased value,
  are both kept or both dropped, and two query values that differ only in letter case
  filter alike. In the direct filter query the three filters keep exactly the rows whose
  province, city and district cells are the given values themselves, so a row whose cell
  is not exactly the given value is not matched.
\<close>

theorem location_matching_case:
  "(city_filter lib request df = Inr by_city \<longleftrightarrow>
      (given (city request) = None \<or> dtypes df ''city'' = Some ObjectDtype)
      \<and> by_city = df\<lparr>rows := filter (\<lambda>r. matches_lower lib (city request) (r ''city'')) (rows df)\<rparr>)
   \<and> (district_filter lib request df = Inr by_district \<longleftrightarrow>
      (given (district request) = None \<or> rows df = [] \<or> dtypes df ''district'' = Some ObjectDtype)
      \<and> by_district
          = df\<lparr>rows := filter (\<lambda>r. matches_lower lib (district request) (r ''district'')) (rows df)\<rparr>)
   \<and> (filtered_by_location df v c d = Inr f \<longleftrightarrow>
      (given v = None \<or> dtypes df ''voivodeship'' \<noteq> None)
      \<and> (given c = None \<or> dtypes df ''city'' \<noteq> None)
      \<and> (given d = None \<or> dtypes df ''district'' \<noteq> None)
      \<and> f = df\<lparr>rows := filter (\<lambda>r. matches_exactly v (r ''voivodeship'')
                                  \<and> matches_exactly c (r ''city'')
                                  \<and> matches_exactly d (r ''district'')) (rows df)\<rparr>)
   \<and> (city_filter lib request df = Inr by_city \<and> r1 \<in> set (rows df) \<and> r2 \<in> set (rows df)
      \<and> r1 ''city'' = Str a \<and> r2 ''city'' = Str b \<and> str_lower lib a = str_lower lib b
    \<longrightarrow> (r1 \<in> set (rows by_city) \<longleftrightarrow> r2 \<in> set (rows by_city)))
   \<and> (district_filter lib request df = Inr by_district \<and> r1 \<in> set (rows df) \<and> r2 \<in> set (rows df)
      \<and> r1 ''district'' = Str a \<and> r2 ''district'' = Str b \<and> str_lower lib a = str_lower lib b
    \<longrightarrow> (r1 \<in> set (rows by_district) \<longleftrightarrow> r2 \<in> set (rows by_district)))
   \<and> (c1 \<noteq> [] \<and> c2 \<noteq> [] \<and> str_lower lib c1 = str_lower lib c2
    \<longrightarrow> city_filter lib (request\<lparr>city := Some c1\<rparr>) df = city_filter lib (request\<lparr>city := Some c2\<rparr>) df
        \<and> district_filter lib (request\<lparr>district := Some c1\<rparr>) df
            = district_filter lib (request\<lparr>district := Some c2\<rparr>) df)
   \<and> (filtered_by_location df v c d = Inr f \<and> r \<in> set (rows df)
      \<and> ((given v = Some sv \<and> r ''voivodeship'' \<noteq> Str sv)
         \<or> (given c = Some sc \<and> r ''city'' \<noteq> Str sc)
         \<or> (given d = Some sd \<and> r ''district'' \<noteq> Str sd))
    \<longrightarrow> r \<notin> set (rows f))"
proof -
  have query: "c1 \<noteq> [] \<and> c2 \<noteq> [] \<and> str_lower lib c1 = str_lower lib c2
    \<longrightarrow> city_filter lib (request\<lparr>city := Some c1\<rparr>) df = city_filter lib (request\<lparr>city := Some c2\<rparr>) df
        \<and> district_filter lib (request\<lparr>district := Some c1\<rparr>) df
            = district_filter lib (request\<lparr>district := Some c2\<rparr>) df"
    using filter_lower_eq_query [of lib c1 c2 df]
    by (simp add: city_filter_def district_filter_def)
  have exact: "filtered_by_location df v c d = Inr f \<and> r \<in> set (rows df)
      \<and> ((given v = Some sv \<and> r ''voivodeship'' \<noteq> Str sv)
         \<or> (given c = Some sc \<and> r ''city'' \<noteq> Str sc)
         \<or> (given d = Some sd \<and> r ''district'' \<noteq> Str sd))
    \<longrightarrow> r \<notin> set (rows f)"
    using filtered_by_location_rows [of df v c d f] by blast
  have same_city: "city_filter lib request df = Inr by_city \<and> r1 \<in> set (rows df) \<and> r2 \<in> set (rows df)
      \<and> r1 ''city'' = Str a \<and> r2 ''city'' = Str b \<and> str_lower lib a = str_lower lib b
    \<longrightarrow> (r1 \<in> set (rows by_city) \<longleftrightarrow> r2 \<in> set (rows by_city))"
    using city_filter_same_case [of lib request df by_city r1 r2 a b] by blast
  have same_district: "district_filter lib request df = Inr by_district \<and> r1 \<in> set (rows df)
      \<and> r2 \<in> set (rows df)
      \<and> r1 ''district'' = Str a \<and> r2 ''district'' = Str b \<and> str_lower lib a = str_lower lib b
    \<longrightarrow> (r1 \<in> set (rows by_district) \<longleftrightarrow> r2 \<in> set (rows by_district))"
    using district_filter_same_case [of lib request df by_district r1 r2 a b] by blast
  from city_filter_iff [of lib request df by_city] district_filter_iff [of lib request df by_district]
    filtered_by_location_iff [of df v c d f] same_city same_district query exact
  show ?thesis by (intro conjI)
qed

lemma lower_examples:
  "ascii_lower ''Gdynia'' = ''gdynia''" "ascii_lower ''GDYNIA'' = ''gdynia''"
  "ascii_lower ''Sopot'' = ''sopot''" "ascii_lower ''gdynia'' = ''gdynia''"
  by code_simp+

lemma coast_cells:
  "row_gdynia ''city'' = Str ''Gdynia''" "row_GDYNIA ''city'' = Str ''GDYNIA''"
  "row_sopot ''city'' = Str ''Sopot''"
  by (simp_all add: row_gdynia_def row_GDYNIA_def row_sopot_def make_row_def)

lemma coast_city_filter:
  "city_filter reference_lib gdynia_request coast_frame = Inr (coast_frame\<lparr>rows := [row_gdynia, row_GDYNIA]\<rparr>)"
  by (simp add: city_filter_def gdynia_request_def typical_request_def filter_lower_eq_def
        coast_frame_def all_columns_def reference_lib_def lower_examples coast_cells)

lemma coast_exact_filter:
  "filtered_by_location coast_frame None (Some ''gdynia'') None = Inr (coast_frame\<lparr>rows := []\<rparr>)"
  by (simp add: filtered_by_location_def exact_filter_def filter_eq_def
        coast_frame_def all_columns_def coast_cells)

lemma coast_exact_match:
  "filtered_by_location coast_frame None (Some ''Gdynia'') None = Inr (coast_frame\<lparr>rows := [row_gdynia]\<rparr>)"
  by (simp add: filtered_by_location_def exact_filter_def filter_eq_def
        coast_frame_def all_columns_def coast_cells)

theorem location_matching_case_witness:
  "city_filter reference_lib gdynia_request coast_frame = Inr (coast_frame\<lparr>rows := [row_gdynia, row_GDYNIA]\<rparr>)
   \<and> filter (\<lambda>r. matches_lower reference_lib (city gdynia_request) (r ''city'')) (rows coast_frame)
       = [row_gdynia, row_GDYNIA]
   \<and> (row_gdynia \<in> set (rows (coast_frame\<lparr>rows := [row_gdynia, row_GDYNIA]\<rparr>))
        \<longleftrightarrow> row_GDYNIA \<in> set (rows (coast_frame\<lparr>rows := [row_gdynia, row_GDYNIA]\<rparr>)))
   \<and> city_filter reference_lib (typical_request\<lparr>city := Some ''Gdynia''\<rparr>) coast_frame
        = city_filter reference_lib (typical_request\<lparr>city := Some ''GDYNIA''\<rparr>) coast_frame
   \<and> filtered_by_location coast_frame None (Some ''Gdynia'') None = Inr (coast_frame\<lparr>rows := [row_gdynia]\<rparr>)
   \<and> filter (\<lambda>r. matches_exactly None (r ''voivodeship'') \<and> matches_exactly (Some ''Gdynia'') (r ''city'')
                \<and> matches_exactly None (r ''district'')) (rows coast_frame)
       = [row_gdynia]
   \<and> filtered_by_location coast_frame None (Some ''gdynia'') None = Inr (coast_frame\<lparr>rows := []\<rparr>)
   \<and> row_gdynia \<notin> set (rows (coast_frame\<lparr>rows := []\<rparr>))"
proof -
  have members: "row_gdynia \<in> set (rows coast_frame)" "row_GDYNIA \<in> set (rows coast_frame)"
    by (simp_all add: coast_frame_def)
  have same: "str_lower reference_lib ''Gdynia'' = str_lower reference_lib ''GDYNIA''"
    by (simp add: reference_lib_def lower_examples)
  have differs: "given (Some ''gdynia'') = Some ''gdynia'' \<and> row_gdynia ''city'' \<noteq> Str ''gdynia''"
    by (simp add: coast_cells)
  have nonempty: "''Gdynia'' \<noteq> [] \<and> ''GDYNIA'' \<noteq> []"
    by simp
  note T = location_matching_case [where lib = reference_lib and df = coast_frame
      and request = gdynia_request and ?r1.0 = row_gdynia and ?r2.0 = row_GDYNIA
      and a = "''Gdynia''" and b = "''GDYNIA''"
      and by_city = "coast_frame\<lparr>rows := [row_gdynia, row_GDYNIA]\<rparr>"]
  note U = location_matching_case [where lib = reference_lib and df = coast_frame
      and request = typical_request and ?c1.0 = "''Gdynia''" and ?c2.0 = "''GDYNIA''"
      and v = None and c = "Some ''gdynia''" and d = None and sc = "''gdynia''"
      and f = "coast_frame\<lparr>rows := []\<rparr>" and r = row_gdynia]
  note W = location_matching_case [where df = coast_frame and v = None and c = "Some ''Gdynia''"
      and d = None and f = "coast_frame\<lparr>rows := [row_gdynia]\<rparr>"]
  from T [THEN conjunct1] coast_city_filter
  have "coast_frame\<lparr>rows := [row_gdynia, row_GDYNIA]\<rparr>
      = coast_frame\<lparr>rows := filter (\<lambda>r. matches_lower reference_lib (city gdynia_request) (r ''city''))
          (rows coast_frame)\<rparr>"
    by blast
  then have kept: "filter (\<lambda>r. matches_lower reference_lib (city gdynia_request) (r ''city''))
      (rows coast_frame) = [row_gdynia, row_GDYNIA]"
    by (simp add: coast_frame_def)
  from W [THEN conjunct2, THEN conjunct2, THEN conjunct1] coast_exact_match
  have "coast_frame\<lparr>rows := [row_gdynia]\<rparr>
      = coast_frame\<lparr>rows := filter (\<lambda>r. matches_exactly None (r ''voivodeship'')
          \<and> matches_exactly (Some ''Gdynia'') (r ''city'')
          \<and> matches_exactly None (r ''district'')) (rows coast_frame)\<rparr>"
    by blast
  then have exact: "filter (\<lambda>r. matches_exactly None (r ''voivodeship'')
          \<and> matches_exactly (Some ''Gdynia'') (r ''city'')
          \<and> matches_exactly None (r ''district'')) (rows coast_frame) = [row_gdynia]"
    by (simp add: coast_frame_def)
  from T [THEN conjunct2, THEN conjunct2, THEN conjunct2, THEN conjunct1] coast_city_filter members coast_cells same
  have a: "row_gdynia \<in> set (rows (coast_frame\<lparr>rows := [row_gdynia, row_GDYNIA]\<rparr>))
        \<longleftrightarrow> row_GDYNIA \<in> set (rows (coast_frame\<lparr>rows := [row_gdynia, row_GDYNIA]\<rparr>))"
    by blast
  from U [THEN conjunct2, THEN conjunct2, THEN conjunct2, THEN conjunct2, THEN conjunct2, THEN conjunct1] nonempty same
  have b: "city_filter reference_lib (typical_request\<lparr>city := Some ''Gdynia''\<rparr>) coast_frame
        = city_filter reference_lib (typical_request\<lparr>city := Some ''GDYNIA''\<rparr>) coast_frame"
    by blast
  from U [THEN conjunct2, THEN conjunct2, THEN conjunct2, THEN conjunct2, THEN conjunct2, THEN conjunct2] coast_exact_filter members differs
  have c: "row_gdynia \<notin> set (rows (coast_frame\<lparr>rows := []\<rparr>))"
    by blast
  from coast_city_filter kept a b coast_exact_match exact coast_exact_filter c
  show ?thesis by (intro conjI)
qed

section \<open>Properties of the local statistics\<close>

lemma series_min_Min: "xs \<noteq> [] \<Longrightarrow> series_min xs = Finite (Min (set xs))"
  using Min.set_eq_fold [of "hd xs" "tl xs"] by (cases xs) simp_all

lemma series_max_Max: "xs \<noteq> [] \<Longrightarrow> series_max xs = Finite (Max (set xs))"
  using Max.set_eq_fold [of "hd xs" "tl xs"] by (cases xs) simp_all

lemma make_local_stats_value:
  assumes "dtypes df col_Price = Some NumericDtype" "dtypes df col_Area = Some NumericDtype"
    and "dtypes df col_rooms = Some NumericDtype" "dtypes df col_year = Some NumericDtype"
    and "series_mean lib (present df col_year) = Finite m"
  shows "make_local_stats lib request df =
     Inr \<lparr>location_city = city request, location_district = district request,
          properties_count = length (rows df),
          avg_price = round2 (series_mean lib (present df col_Price)),
          min_price = round2 (series_min (present df col_Price)),
          max_price = round2 (series_max (present df col_Price)),
          avg_area = round2 (series_mean lib (present df col_Area)),
          avg_rooms = round2 (series_mean lib (present df col_rooms)),
          avg_year = trunc m\<rparr>"
  using assms
  by (simp add: make_local_stats_def rounded_mean_def rounded_min_def rounded_max_def
        int_mean_def numbers_def)

lemma city_filter_dtypes: "city_filter lib request df = Inr f \<Longrightarrow> dtypes f = dtypes df"
  by (auto simp: city_filter_def dest!: filter_lower_eq_Inr split: option.splits)

lemma district_filter_dtypes: "district_filter lib request df = Inr f \<Longrightarrow> dtypes f = dtypes df"
  by (auto simp: district_filter_def dest!: filter_lower_eq_Inr split: option.splits if_splits)

lemma local_statistics_value:
  assumes asked: "given (city request) \<noteq> None \<or> given (district request) \<noteq> None"
    and city: "city_filter lib request df = Inr by_city"
    and district: "district_filter lib request by_city = Inr filtered_df"
    and nonempty: "rows filtered_df \<noteq> []"
    and numeric: "dtypes df col_Price = Some NumericDtype" "dtypes df col_Area = Some NumericDtype"
      "dtypes df col_rooms = Some NumericDtype" "dtypes df col_year = Some NumericDtype"
    and year: "series_mean lib (present filtered_df col_year) = Finite m"
  shows "local_statistics lib (Inr df) request =
     Some \<lparr>location_city = city request, location_district = district request,
           properties_count = length (rows filtered_df),
           avg_price = round2 (series_mean lib (present filtered_df col_Price)),
           min_price = round2 (series_min (present filtered_df col_Price)),
           max_price = round2 (series_max (present filtered_df col_Price)),
           avg_area = round2 (series_mean lib (present filtered_df col_Area)),
           avg_rooms = round2 (series_mean lib (present filtered_df col_rooms)),
           avg_year = trunc m\<rparr>"
proof -
  have d: "dtypes filtered_df = dtypes df"
    using city_filter_dtypes [OF city] district_filter_dtypes [OF district] by simp
  have "make_local_stats lib request filtered_df = Inr \<lparr>location_city = city request,
           location_district = district request,
           properties_count = length (rows filtered_df),
           avg_price = round2 (series_mean lib (present filtered_df col_Price)),
           min_price = round2 (series_min (present filtered_df col_Price)),
           max_price = round2 (series_max (present filtered_df col_Price)),
           avg_area = round2 (series_mean lib (present filtered_df col_Area)),
           avg_rooms = round2 (series_mean lib (present filtered_df col_rooms)),
           avg_year = trunc m\<rparr>"
    by (rule make_local_stats_value) (simp_all only: d numeric year)
  with city district nonempty have "local_stats_try lib (Inr df) request = Inr (Some \<lparr>location_city = city request,
           location_district = district request,
           properties_count = length (rows filtered_df),
           avg_price = round2 (series_mean lib (present filtered_df col_Price)),
           min_price = round2 (series_min (present filtered_df col_Price)),
           max_price = round2 (series_max (present filtered_df col_Price)),
           avg_area = round2 (series_mean lib (present filtered_df col_Area)),
           avg_rooms = round2 (series_mean lib (present filtered_df col_rooms)),
           avg_year = trunc m\<rparr>)"
    by (simp add: local_stats_try_def)
  with asked show ?thesis
    by (simp add: local_statistics_def)
qed

lemma all_columns_numeric:
  "all_columns col_Price = Some NumericDtype" "all_columns col_Area = Some NumericDtype"
  "all_columns col_rooms = Some NumericDtype" "all_columns col_year = Some NumericDtype"
  by (simp_all add: all_columns_def col_Price_def col_Area_def col_rooms_def col_year_def)

lemma all_columns_text:
  "all_columns ''voivodeship'' = Some ObjectDtype" "all_columns ''city'' = Some ObjectDtype"
  "all_columns ''district'' = Some ObjectDtype"
  by (simp_all add: all_columns_def)



lemma district_filter_empty: "rows df = [] \<Longrightarrow> district_filter lib request df = Inr df"
  by (simp add: district_filter_def split: option.splits)

lemma city_filter_subset:
  "city_filter lib request df = Inr by_city \<Longrightarrow>
     dtypes by_city = dtypes df \<and> set (rows by_city) \<subseteq> set (rows df)
     \<and> length (rows by_city) \<le> length (rows df)"
  by (auto simp: city_filter_def dest!: filter_lower_eq_Inr split: option.splits)

lemma district_filter_subset:
  "district_filter lib request df = Inr f \<Longrightarrow>
     dtypes f = dtypes df \<and> set (rows f) \<subseteq> set (rows df) \<and> length (rows f) \<le> length (rows df)"
  by (auto simp: district_filter_def dest!: filter_lower_eq_Inr split: option.splits if_splits)

lemma local_stats_try_empty_city:
  assumes "city_filter lib request df = Inr by_city" "rows by_city = []"
  shows "local_stats_try lib (Inr df) request = Inr None"
  using assms by (simp add: local_stats_try_def district_filter_empty)

lemma make_local_stats_count:
  "make_local_stats lib request df = Inr s \<Longrightarrow> properties_count s = length (rows df)"
  by (auto simp: make_local_stats_def split: sum.splits)

lemma local_stats_try_Some:
  assumes "local_stats_try lib csv request = Inr (Some s)"
  shows "0 < properties_count s"
proof -
  from assms obtain df by_city f where "csv = Inr df"
    and "city_filter lib request df = Inr by_city"
    and "district_filter lib request by_city = Inr f"
    and pos: "0 < length (rows f)" and mk: "make_local_stats lib request f = Inr s"
    by (auto simp: local_stats_try_def split: sum.splits if_splits)
  from make_local_stats_count [OF mk] pos show ?thesis by simp
qed

lemma local_statistics_Some:
  "local_statistics lib csv request = Some s \<Longrightarrow> local_stats_try lib csv request = Inr (Some s)"
  by (auto simp: local_statistics_def split: if_splits sum.splits)

lemma local_statistics_failure:
  "(\<exists>e. local_stats_try lib csv request = Inl e) \<or> local_stats_try lib csv request = Inr None
     \<Longrightarrow> local_statistics lib csv request = None"
  by (auto simp: local_statistics_def)

text \<open>
  Claim C5. When the request names a city and no row of the dataset has that city (compared
  in lower case), the local statistics are absent, whatever else the dataset holds. A
  snapshot that is present always has a positive count, so an absent result and zero
  statistics are never confused.
\<close>

theorem no_match_no_snapshot:
  "(given (city request) = Some c
      \<and> (\<forall>r\<in>set (rows df). \<forall>t. r ''city'' = Str t \<longrightarrow> str_lower lib t \<noteq> str_lower lib c)
    \<longrightarrow> local_statistics lib (Inr df) request = None)
   \<and> (local_statistics lib csv request = Some s \<longrightarrow> 0 < properties_count s)"
proof -
  have none: "local_statistics lib (Inr df) request = None"
    if H: "given (city request) = Some c
      \<and> (\<forall>r\<in>set (rows df). \<forall>t. r ''city'' = Str t \<longrightarrow> str_lower lib t \<noteq> str_lower lib c)"
  proof (cases "city_filter lib request df")
    case (Inl e)
    then have "local_stats_try lib (Inr df) request = Inl e"
      by (simp add: local_stats_try_def)
    then show ?thesis using local_statistics_failure by blast
  next
    case (Inr by_city)
    from H city_filter_rows [OF Inr] have "rows by_city = []"
      by (simp add: filter_empty_conv)
    from local_stats_try_empty_city [OF Inr this] show ?thesis
      using local_statistics_failure by blast
  qed
  have pos: "0 < properties_count s" if "local_statistics lib csv request = Some s"
    using local_stats_try_Some [OF local_statistics_Some [OF that]] .
  from none pos show ?thesis by blast
qed

lemma more_lower_examples:
  "ascii_lower ''Krakow'' = ''krakow''" "ascii_lower ''ORLOWO'' = ''orlowo''"
  "ascii_lower ''Orlowo'' = ''orlowo''" "ascii_lower ''Redlowo'' = ''redlowo''"
  "ascii_lower ''Centrum'' = ''centrum''"
  by code_simp+

lemma gdynia_city_filter:
  "city_filter reference_lib gdynia_request coast_frame = Inr (coast_frame\<lparr>rows := [row_gdynia, row_GDYNIA]\<rparr>)"
  by (simp add: city_filter_def gdynia_request_def typical_request_def filter_lower_eq_def
        coast_frame_def all_columns_def reference_lib_def lower_examples coast_cells)

lemma gdynia_district_filter:
  "district_filter reference_lib gdynia_request f = Inr f"
  by (simp add: district_filter_def gdynia_request_def typical_request_def)

lemma gdynia_asked: "given (city gdynia_request) \<noteq> None \<or> given (district gdynia_request) \<noteq> None"
  by (simp add: gdynia_request_def typical_request_def)

lemma coast_years:
  "present (coast_frame\<lparr>rows := [row_gdynia, row_GDYNIA]\<rparr>) col_year = [1999, 2001]"
  by (simp add: present_def List.map_filter_def col_year_def row_gdynia_def row_GDYNIA_def make_row_def)

lemma coast_year_mean: "exact_mean [1999, 2001] = Finite 2000"
  by code_simp

theorem no_match_no_snapshot_witness:
  "local_statistics reference_lib (Inr coast_frame) krakow_request = None
   \<and> (\<exists>s. local_statistics reference_lib (Inr coast_frame) gdynia_request = Some s
          \<and> properties_count s = 2 \<and> 0 < properties_count s)"
proof -
  have no_row: "given (city krakow_request) = Some ''Krakow''
      \<and> (\<forall>r\<in>set (rows coast_frame). \<forall>t. r ''city'' = Str t
            \<longrightarrow> str_lower reference_lib t \<noteq> str_lower reference_lib ''Krakow'')"
    by (simp add: krakow_request_def typical_request_def coast_frame_def coast_cells
          reference_lib_def lower_examples more_lower_examples)
  have "series_mean reference_lib (present (coast_frame\<lparr>rows := [row_gdynia, row_GDYNIA]\<rparr>) col_year)
          = Finite 2000"
    by (simp add: reference_lib_def coast_years coast_year_mean)
  from local_statistics_value [OF gdynia_asked gdynia_city_filter gdynia_district_filter _ _ _ _ _ this]
  obtain s where two: "local_statistics reference_lib (Inr coast_frame) gdynia_request = Some s"
    and count: "properties_count s = 2"
    by (simp add: coast_frame_def all_columns_numeric)
  from no_match_no_snapshot [of krakow_request "''Krakow''" coast_frame reference_lib, THEN conjunct1] no_row
  have a: "local_statistics reference_lib (Inr coast_frame) krakow_request = None"
    by blast
  from no_match_no_snapshot [where lib = reference_lib and csv = "Inr coast_frame"
      and request = gdynia_request and s = s, THEN conjunct2] two
  have b: "0 < properties_count s"
    by blast
  from a two count b show ?thesis by blast
qed

text \<open>
  Claim C6. The rows left by the district filter are among the rows left by the city filter
  (which are among the rows of the dataset). When the city filter leaves no row the
  district filter returns the frame as it is without touching the district column, so it
  cannot raise even when that column is missing, and the aggregation ends with no
  snapshot.
\<close>

theorem district_filter_narrows:
  "(city_filter lib request df = Inr by_city \<and> district_filter lib request by_city = Inr filtered_df
    \<longrightarrow> set (rows filtered_df) \<subseteq> set (rows by_city)
        \<and> length (rows filtered_df) \<le> length (rows by_city)
        \<and> set (rows by_city) \<subseteq> set (rows df))
   \<and> (rows by_city = [] \<longrightarrow> district_filter lib request by_city = Inr by_city)
   \<and> (city_filter lib request df = Inr by_city \<and> rows by_city = []
    \<longrightarrow> local_stats_try lib (Inr df) request = Inr None)"
  using city_filter_subset [of lib request df by_city]
        district_filter_subset [of lib request by_city filtered_df]
        district_filter_empty [of by_city lib request]
        local_stats_try_empty_city [of lib request df by_city]
  by blast


lemma district_cells:
  "row_gdynia ''district'' = Str ''Orlowo''" "row_GDYNIA ''district'' = Str ''Redlowo''"
  "row_sopot ''district'' = Str ''Centrum''"
  by (simp_all add: row_gdynia_def row_GDYNIA_def row_sopot_def make_row_def)

lemma orlowo_city_filter:
  "city_filter reference_lib orlowo_request coast_frame = Inr (coast_frame\<lparr>rows := [row_gdynia, row_GDYNIA]\<rparr>)"
  by (simp add: city_filter_def orlowo_request_def typical_request_def filter_lower_eq_def
        coast_frame_def all_columns_def reference_lib_def lower_examples coast_cells)

lemma orlowo_district_filter:
  "district_filter reference_lib orlowo_request (coast_frame\<lparr>rows := [row_gdynia, row_GDYNIA]\<rparr>)
     = Inr (coast_frame\<lparr>rows := [row_gdynia]\<rparr>)"
  by (simp add: district_filter_def orlowo_request_def typical_request_def filter_lower_eq_def
        coast_frame_def all_columns_def reference_lib_def more_lower_examples district_cells)

lemma krakow_city_filter:
  "city_filter reference_lib krakow_request no_district_frame = Inr (no_district_frame\<lparr>rows := []\<rparr>)"
  by (simp add: city_filter_def krakow_request_def typical_request_def filter_lower_eq_def
        no_district_frame_def coast_frame_def all_columns_def reference_lib_def lower_examples
        more_lower_examples coast_cells)

lemma orlowo_no_district:
  "local_stats_try reference_lib (Inr no_district_frame) orlowo_request = Inl (KeyError [''district''])"
  by (simp add: local_stats_try_def city_filter_def district_filter_def orlowo_request_def
        typical_request_def filter_lower_eq_def no_district_frame_def coast_frame_def
        all_columns_def reference_lib_def lower_examples coast_cells)

theorem district_filter_narrows_witness:
  "city_filter reference_lib orlowo_request coast_frame = Inr (coast_frame\<lparr>rows := [row_gdynia, row_GDYNIA]\<rparr>)
   \<and> district_filter reference_lib orlowo_request (coast_frame\<lparr>rows := [row_gdynia, row_GDYNIA]\<rparr>)
       = Inr (coast_frame\<lparr>rows := [row_gdynia]\<rparr>)
   \<and> set (rows (coast_frame\<lparr>rows := [row_gdynia]\<rparr>))
       \<subseteq> set (rows (coast_frame\<lparr>rows := [row_gdynia, row_GDYNIA]\<rparr>))
   \<and> city_filter reference_lib krakow_request no_district_frame = Inr (no_district_frame\<lparr>rows := []\<rparr>)
   \<and> district_filter reference_lib krakow_request (no_district_frame\<lparr>rows := []\<rparr>)
       = Inr (no_district_frame\<lparr>rows := []\<rparr>)
   \<and> local_stats_try reference_lib (Inr no_district_frame) krakow_request = Inr None
   \<and> local_stats_try reference_lib (Inr no_district_frame) orlowo_request = Inl (KeyError [''district''])"
proof -
  have emptied: "rows (no_district_frame\<lparr>rows := []\<rparr>) = []"
    by simp
  note T = district_filter_narrows [of reference_lib orlowo_request coast_frame
      "coast_frame\<lparr>rows := [row_gdynia, row_GDYNIA]\<rparr>" "coast_frame\<lparr>rows := [row_gdynia]\<rparr>"]
  note U = district_filter_narrows [of reference_lib krakow_request no_district_frame
      "no_district_frame\<lparr>rows := []\<rparr>"]
  from T [THEN conjunct1] orlowo_city_filter orlowo_district_filter
  have a: "set (rows (coast_frame\<lparr>rows := [row_gdynia]\<rparr>))
       \<subseteq> set (rows (coast_frame\<lparr>rows := [row_gdynia, row_GDYNIA]\<rparr>))"
    by blast
  from U [THEN conjunct2, THEN conjunct1] emptied
  have b: "district_filter reference_lib krakow_request (no_district_frame\<lparr>rows := []\<rparr>)
       = Inr (no_district_frame\<lparr>rows := []\<rparr>)"
    by blast
  from U [THEN conjunct2, THEN conjunct2] krakow_city_filter emptied
  have c: "local_stats_try reference_lib (Inr no_district_frame) krakow_request = Inr None"
    by blast
  from orlowo_city_filter orlowo_district_filter a krakow_city_filter b c orlowo_no_district
  show ?thesis by (intro conjI)
qed


text \<open>
  Claim C8, as amended. When rows remain after filtering, the four numeric columns are
  numeric and the mean year is a finite number, the snapshot holds the number of rows;
  the mean, minimum and maximum of the price and the mean of the area and of the rooms,
  each rounded to two decimals; and the mean year truncated towards zero. A mean year of
  1999.9 becomes 1999.
\<close>

theorem local_stats_contents:
  "((given (city request) \<noteq> None \<or> given (district request) \<noteq> None)
     \<and> city_filter lib request df = Inr by_city
     \<and> district_filter lib request by_city = Inr filtered_df
     \<and> rows filtered_df \<noteq> []
     \<and> dtypes df col_Price = Some NumericDtype \<and> dtypes df col_Area = Some NumericDtype
     \<and> dtypes df col_rooms = Some NumericDtype \<and> dtypes df col_year = Some NumericDtype
     \<and> series_mean lib (present filtered_df col_year) = Finite m
    \<longrightarrow> local_statistics lib (Inr df) request =
         Some \<lparr>location_city = city request, location_district = district request,
               properties_count = length (rows filtered_df),
               avg_price = round2 (series_mean lib (present filtered_df col_Price)),
               min_price = round2 (series_min (present filtered_df col_Price)),
               max_price = round2 (series_max (present filtered_df col_Price)),
               avg_area = round2 (series_mean lib (present filtered_df col_Area)),
               avg_rooms = round2 (series_mean lib (present filtered_df col_rooms)),
               avg_year = trunc m\<rparr>)
   \<and> py_int (Finite (fl (19999 / 10))) = Inr 1999"
proof -
  have "py_int (Finite (fl (19999 / 10))) = Inr 1999"
    by code_simp
  with local_statistics_value [of request lib df by_city filtered_df m]
  show ?thesis by blast
qed

lemma flat_cells:
  "flat_2000 ''city'' = Str ''Gdynia''" "flat_1999 ''city'' = Str ''Gdynia''"
  by (simp_all add: flat_2000_def flat_1999_def make_row_def)

lemma decade_city_filter:
  "city_filter reference_lib gdynia_request decade_frame = Inr decade_frame"
  by (simp add: city_filter_def gdynia_request_def typical_request_def filter_lower_eq_def
        decade_frame_def all_columns_def reference_lib_def lower_examples flat_cells)

lemma decade_years:
  "present decade_frame col_year = [2000, 2000, 2000, 2000, 2000, 2000, 2000, 2000, 2000, 1999]"
  by (simp add: present_def List.map_filter_def col_year_def decade_frame_def flat_2000_def
        flat_1999_def make_row_def)

lemma decade_year_mean:
  "exact_mean [2000, 2000, 2000, 2000, 2000, 2000, 2000, 2000, 2000, 1999] = Finite (fl (19999 / 10))"
  by code_simp

lemma trunc_example: "trunc (fl (19999 / 10)) = 1999"
  by code_simp

theorem local_stats_contents_witness:
  "map_option avg_year (local_statistics reference_lib (Inr decade_frame) gdynia_request) = Some 1999
   \<and> map_option properties_count (local_statistics reference_lib (Inr decade_frame) gdynia_request)
       = Some 10"
proof -
  have nonempty: "rows decade_frame \<noteq> []"
    by (simp add: decade_frame_def)
  have numeric: "dtypes decade_frame col_Price = Some NumericDtype"
    "dtypes decade_frame col_Area = Some NumericDtype"
    "dtypes decade_frame col_rooms = Some NumericDtype"
    "dtypes decade_frame col_year = Some NumericDtype"
    by (simp_all add: decade_frame_def all_columns_numeric)
  have year: "series_mean reference_lib (present decade_frame col_year) = Finite (fl (19999 / 10))"
    by (simp only: reference_lib_def pylib.simps decade_years decade_year_mean)
  from gdynia_asked decade_city_filter gdynia_district_filter [of decade_frame] nonempty numeric year
  have hyp: "(given (city gdynia_request) \<noteq> None \<or> given (district gdynia_request) \<noteq> None)
     \<and> city_filter reference_lib gdynia_request decade_frame = Inr decade_frame
     \<and> district_filter reference_lib gdynia_request decade_frame = Inr decade_frame
     \<and> rows decade_frame \<noteq> []
     \<and> dtypes decade_frame col_Price = Some NumericDtype
     \<and> dtypes decade_frame col_Area = Some NumericDtype
     \<and> dtypes decade_frame col_rooms = Some NumericDtype
     \<and> dtypes decade_frame col_year = Some NumericDtype
     \<and> series_mean reference_lib (present decade_frame col_year) = Finite (fl (19999 / 10))"
    by (intro conjI)
  have len: "length (rows decade_frame) = 10"
    by (simp add: decade_frame_def)
  note R = local_stats_contents [of gdynia_request reference_lib decade_frame decade_frame
      decade_frame "fl (19999 / 10)", THEN conjunct1, THEN mp, OF hyp]
  show ?thesis
    unfolding R by (simp add: trunc_example len)
qed

lemma odd_city_filter:
  "city_filter reference_lib gdynia_request odd_price_frame = Inr odd_price_frame"
  by (simp add: city_filter_def gdynia_request_def typical_request_def filter_lower_eq_def
        odd_price_frame_def all_columns_def reference_lib_def lower_examples make_row_def)

lemma odd_prices: "present odd_price_frame col_Price = [800001 / 8]"
  by code_simp

lemma odd_years: "present odd_price_frame col_year = [1999]"
  by (simp add: present_def List.map_filter_def col_year_def odd_price_frame_def make_row_def)

lemma odd_year_mean: "exact_mean [1999] = Finite 1999"
  by code_simp

lemma odd_rounding: "round2 (Finite (800001 / 8)) = Finite (858994489992151 / 8589934592)"
  by code_simp

text \<open>
  Claim C8 as stated fails: for a dataset whose only flat costs 100000.125 the snapshot's
  minimum price is 100000.12 (the double nearest to it), not the minimum of the column.
\<close>

theorem snapshot_minimum_counterexample:
  "present odd_price_frame col_Price = [800001 / 8]
   \<and> map_option min_price (local_statistics reference_lib (Inr odd_price_frame) gdynia_request)
       = Some (Finite (858994489992151 / 8589934592))
   \<and> map_option min_price (local_statistics reference_lib (Inr odd_price_frame) gdynia_request)
       \<noteq> Some (Finite (800001 / 8))"
proof -
  have "series_mean reference_lib (present odd_price_frame col_year) = Finite 1999"
    by (simp add: reference_lib_def odd_years odd_year_mean)
  from local_statistics_value [OF gdynia_asked odd_city_filter gdynia_district_filter _ _ _ _ _ this]
  have "map_option min_price (local_statistics reference_lib (Inr odd_price_frame) gdynia_request)
          = Some (round2 (series_min (present odd_price_frame col_Price)))"
    by (simp add: odd_price_frame_def all_columns_numeric)
  then have v: "map_option min_price (local_statistics reference_lib (Inr odd_price_frame) gdynia_request)
          = Some (Finite (858994489992151 / 8589934592))"
    by (simp only: odd_prices series_min.simps fold.simps id_apply odd_rounding)
  have ne: "Finite (858994489992151 / 8589934592) \<noteq> Finite (800001 / 8)"
    by simp
  show ?thesis
    unfolding v odd_prices using ne by simp
qed

section \<open>Properties of the two endpoints\<close>

lemma encode_location:
  "encode (request\<lparr>city := ci, district := di\<rparr>) encoders features = encode request encoders features"
  by (simp add: encode_def feature_dict_def)

lemma determine_confidence_location:
  "determine_confidence (request\<lparr>city := ci, district := di\<rparr>) prediction
     = determine_confidence request prediction"
  by (simp add: determine_confidence_def confidence_score_def)

lemma no_location_no_statistics:
  "local_statistics lib csv (request\<lparr>city := None, district := None\<rparr>) = None"
  by (simp add: local_statistics_def)

lemma predict_try_outcome:
  "prediction_outcome (fst (predict_try lib disk csv request c))
     = prediction_outcome (fst (predict_try lib disk csv' (request\<lparr>city := ci, district := di\<rparr>) c))"
  by (simp add: predict_try_def encode_location determine_confidence_location
        split: prod.splits sum.splits)

lemma predict_price_outcome:
  "prediction_outcome (fst (predict_price lib disk csv request c))
     = prediction_outcome (fst (predict_price lib disk csv' (request\<lparr>city := ci, district := di\<rparr>) c))"
proof -
  have wrap: "prediction_outcome (fst (predict_price lib disk x r c))
      = (case prediction_outcome (fst (predict_try lib disk x r c)) of
           Inl e \<Rightarrow> Inl (HTTPException 400 (Formatted ''Error making prediction: '' e))
         | Inr out \<Rightarrow> Inr out)" for x r
  proof (cases "predict_try lib disk x r c")
    case (Pair res c')
    then show ?thesis by (cases res) (simp_all add: predict_price_def)
  qed
  show ?thesis
    by (simp only: wrap predict_try_outcome [where csv = csv and csv' = csv' and ci = ci and di = di])
qed

lemma predict_price_without_statistics:
  assumes "local_statistics lib csv request = None"
  shows "fst (predict_price lib disk csv request c)
     = (case fst (predict_price lib disk csv (request\<lparr>city := None, district := None\<rparr>) c) of
          Inl e \<Rightarrow> Inl e
        | Inr response \<Rightarrow> Inr (response\<lparr>input_features := request\<rparr>))"
  using assms
  by (simp add: predict_price_def predict_try_def encode_location determine_confidence_location
        no_location_no_statistics split: prod.splits sum.splits)

lemma predict_price_local_stats:
  "fst (predict_price lib disk csv request c) = Inr response \<Longrightarrow>
     local_stats response = local_statistics lib csv request"
  by (auto simp: predict_price_def predict_try_def split: prod.splits sum.splits)

text \<open>
  Claim C7. The price, currency and label of a prediction, or the exception it ends in, do
  not depend on the dataset nor on the city and district of the request. When the
  local-statistics block raises (unreadable dataset, failing filter or aggregate) or
  finds no rows, the call returns what the same request without a location returns,
  echoing the request as sent, and the response carries no local statistics.
\<close>

theorem local_stats_failure_absorbed:
  "prediction_outcome (fst (predict_price lib disk csv request c))
     = prediction_outcome (fst (predict_price lib disk csv' (request\<lparr>city := ci, district := di\<rparr>) c))
   \<and> ((\<exists>e. local_stats_try lib csv request = Inl e) \<or> local_stats_try lib csv request = Inr None
      \<longrightarrow> local_statistics lib csv request = None
          \<and> fst (predict_price lib disk csv request c)
              = (case fst (predict_price lib disk csv (request\<lparr>city := None, district := None\<rparr>) c) of
                   Inl e \<Rightarrow> Inl e
                 | Inr response \<Rightarrow> Inr (response\<lparr>input_features := request\<rparr>))
          \<and> (\<forall>response. fst (predict_price lib disk csv request c) = Inr response
                \<longrightarrow> local_stats response = None))"
proof -
  have absorbed: "local_statistics lib csv request = None
          \<and> fst (predict_price lib disk csv request c)
              = (case fst (predict_price lib disk csv (request\<lparr>city := None, district := None\<rparr>) c) of
                   Inl e \<Rightarrow> Inl e
                 | Inr response \<Rightarrow> Inr (response\<lparr>input_features := request\<rparr>))
          \<and> (\<forall>response. fst (predict_price lib disk csv request c) = Inr response
                \<longrightarrow> local_stats response = None)"
    if "(\<exists>e. local_stats_try lib csv request = Inl e) \<or> local_stats_try lib csv request = Inr None"
  proof -
    from that have none: "local_statistics lib csv request = None"
      by (rule local_statistics_failure)
    have same: "fst (predict_price lib disk csv request c)
              = (case fst (predict_price lib disk csv (request\<lparr>city := None, district := None\<rparr>) c) of
                   Inl e \<Rightarrow> Inl e
                 | Inr response \<Rightarrow> Inr (response\<lparr>input_features := request\<rparr>))"
      by (rule predict_price_without_statistics [OF none])
    have omitted: "\<forall>response. fst (predict_price lib disk csv request c) = Inr response
                \<longrightarrow> local_stats response = None"
      using predict_price_local_stats [of lib disk csv request c] none by simp
    from none same omitted show ?thesis by (intro conjI)
  qed
  from predict_price_outcome [where csv = csv and csv' = csv' and ci = ci and di = di] absorbed
  show ?thesis by blast
qed

lemma typical_prediction:
  "fst (predict_price reference_lib example_storage (Inl (FileNotFoundError ''data_processed.csv''))
         (gdynia_request\<lparr>city := None, district := None\<rparr>) empty_cache)
     = Inr \<lparr>predicted_price = Finite 450000, currency = ''PLN'', confidence = ''High'',
            input_features = typical_request, local_stats = None\<rparr>"
  by code_simp

theorem local_stats_failure_absorbed_witness:
  "local_stats_try reference_lib (Inl (FileNotFoundError ''data_processed.csv'')) gdynia_request
     = Inl (FileNotFoundError ''data_processed.csv'')
   \<and> fst (predict_price reference_lib example_storage (Inl (FileNotFoundError ''data_processed.csv''))
           gdynia_request empty_cache)
       = Inr \<lparr>predicted_price = Finite 450000, currency = ''PLN'', confidence = ''High'',
              input_features = gdynia_request, local_stats = None\<rparr>"
proof -
  have failed: "local_stats_try reference_lib (Inl (FileNotFoundError ''data_processed.csv'')) gdynia_request
     = Inl (FileNotFoundError ''data_processed.csv'')"
    by (simp add: local_stats_try_def)
  then have hyp: "(\<exists>e. local_stats_try reference_lib (Inl (FileNotFoundError ''data_processed.csv''))
            gdynia_request = Inl e)
      \<or> local_stats_try reference_lib (Inl (FileNotFoundError ''data_processed.csv'')) gdynia_request
          = Inr None"
    by blast
  note T = local_stats_failure_absorbed [of reference_lib example_storage
      "Inl (FileNotFoundError ''data_processed.csv'')" gdynia_request empty_cache,
      THEN conjunct2, THEN mp, OF hyp, THEN conjunct2, THEN conjunct1]
  from failed T show ?thesis
    by (simp add: typical_prediction)
qed


lemma exact_filter_given: "exact_filter name arg df = exact_filter name (given arg) df"
  by (cases arg) (simp_all add: exact_filter_def)

lemma filtered_by_location_given:
  "filtered_by_location df v ci di = filtered_by_location df (given v) (given ci) (given di)"
  by (cases v; cases ci; cases di)
     (simp_all add: filtered_by_location_def exact_filter_def cong: sum.case_cong)

lemma statistics_of_filter_properties:
  assumes "filtered_by_location df v ci di = filtered_by_location df v' ci' di'"
  shows "statistics_of (filter_properties lib (Inr df) v ci di)
           = statistics_of (filter_properties lib (Inr df) v' ci' di')"
proof -
  have shape: "statistics_of (filter_properties lib (Inr df) a b d)
      = (case filtered_by_location df a b d of
           Inl e \<Rightarrow> Inl (HTTPException 400 (Formatted ''Error filtering properties: '' e))
         | Inr f \<Rightarrow>
             if length (rows f) = 0
             then Inl (HTTPException 400 (Formatted ''Error filtering properties: '' not_found))
             else statistics_of (case make_filter_stats lib f (None, None, None) of
                    Inl e \<Rightarrow> Inl (HTTPException 400 (Formatted ''Error filtering properties: '' e))
                  | Inr s \<Rightarrow> Inr s))" for a b d
    by (simp add: filter_properties_def filter_try_def make_filter_stats_def
          split: sum.splits)
  show ?thesis
    by (simp only: shape assms)
qed

lemma statistics_of_unreadable:
  "statistics_of (filter_properties lib (Inl e) v ci di)
     = statistics_of (filter_properties lib (Inl e) v' ci' di')"
  by (simp add: filter_properties_def filter_try_def)

lemma statistics_of_given:
  "statistics_of (filter_properties lib csv v ci di)
     = statistics_of (filter_properties lib csv (given v) (given ci) (given di))"
proof (cases csv)
  case (Inl e)
  then show ?thesis by (simp add: filter_properties_def filter_try_def)
next
  case (Inr df)
  have "filtered_by_location df v ci di
          = filtered_by_location df (given v) (given ci) (given di)"
    by (rule filtered_by_location_given)
  from statistics_of_filter_properties [OF this] Inr show ?thesis by simp
qed

text \<open>
  Claim C10. A request whose city and district are both the empty string gets no local
  statistics, and the dataset is not even consulted. In the direct filter query an
  empty-string province, city or district filters nothing: the rows selected, and with
  them every statistic and every error of the response, are those of the query with that
  argument absent.
\<close>

theorem empty_string_is_absent:
  "(city request = Some [] \<and> district request = Some []
      \<longrightarrow> local_statistics lib csv request = None
          \<and> (\<forall>response. fst (predict_price lib disk csv request c) = Inr response
                \<longrightarrow> local_stats response = None))
   \<and> exact_filter name (Some []) df = Inr df
   \<and> filtered_by_location df (Some []) ci di = filtered_by_location df None ci di
   \<and> filtered_by_location df v (Some []) di = filtered_by_location df v None di
   \<and> filtered_by_location df v ci (Some []) = filtered_by_location df v ci None
   \<and> statistics_of (filter_properties lib csv (Some []) ci di)
       = statistics_of (filter_properties lib csv None ci di)
   \<and> statistics_of (filter_properties lib csv v (Some []) di)
       = statistics_of (filter_properties lib csv v None di)
   \<and> statistics_of (filter_properties lib csv v ci (Some []))
       = statistics_of (filter_properties lib csv v ci None)"
proof -
  have skipped: "local_statistics lib csv request = None
          \<and> (\<forall>response. fst (predict_price lib disk csv request c) = Inr response
                \<longrightarrow> local_stats response = None)"
    if "city request = Some [] \<and> district request = Some []"
  proof -
    from that have "local_statistics lib csv request = None"
      by (simp add: local_statistics_def)
    with predict_price_local_stats [of lib disk csv request c] show ?thesis by simp
  qed
  have one: "exact_filter name (Some []) df = Inr df"
    by (simp add: exact_filter_def)
  have rows1: "filtered_by_location df (Some []) ci di = filtered_by_location df None ci di"
    by (simp add: filtered_by_location_def exact_filter_def cong: sum.case_cong)
  have rows2: "filtered_by_location df v (Some []) di = filtered_by_location df v None di"
    by (simp add: filtered_by_location_def exact_filter_def cong: sum.case_cong)
  have rows3: "filtered_by_location df v ci (Some []) = filtered_by_location df v ci None"
    by (simp add: filtered_by_location_def exact_filter_def cong: sum.case_cong)
  have g: "given (Some []) = given None"
    by simp
  have s1: "statistics_of (filter_properties lib csv (Some []) ci di)
       = statistics_of (filter_properties lib csv None ci di)"
    by (simp only: statistics_of_given [of lib csv "Some []"] statistics_of_given [of lib csv None] g)
  have s2: "statistics_of (filter_properties lib csv v (Some []) di)
       = statistics_of (filter_properties lib csv v None di)"
    by (simp only: statistics_of_given [of lib csv v "Some []"] statistics_of_given [of lib csv v None] g)
  have s3: "statistics_of (filter_properties lib csv v ci (Some []))
       = statistics_of (filter_properties lib csv v ci None)"
    by (simp only: statistics_of_given [of lib csv v ci "Some []"] statistics_of_given [of lib csv v ci None] g)
  from skipped one rows1 rows2 rows3 s1 s2 s3 show ?thesis by blast
qed

theorem empty_string_is_absent_witness:
  "local_statistics reference_lib (Inr coast_frame) blank_request = None
   \<and> exact_filter ''city'' (Some []) coast_frame = Inr coast_frame
   \<and> length (rows coast_frame) = 3"
proof -
  have blank: "city blank_request = Some [] \<and> district blank_request = Some []"
    by (simp add: blank_request_def)
  note T = empty_string_is_absent [where request = blank_request and lib = reference_lib
      and csv = "Inr coast_frame" and name = "''city''" and df = coast_frame]
  from T [THEN conjunct1, THEN mp, OF blank, THEN conjunct1] T [THEN conjunct2, THEN conjunct1]
  show ?thesis by (simp add: coast_frame_def)
qed

end
